theory Spec2Isabelle
  imports Main
begin

section \<open>JavaScript strings and values used by the sources\<close>

text \<open>
  Strings are \<^typ>\<open>string\<close>. The three \<open>String.prototype\<close> methods that
  \<^verbatim>\<open>src/lib/utils/cloud.ts\<close> calls are written out: \<open>endsWith\<close>, \<open>indexOf\<close>
  (an integer, \<open>-1\<close> when the character does not occur) and \<open>substring\<close> from a start
  index to the end of the string.
\<close>

definition endsWith :: "string \<Rightarrow> string \<Rightarrow> bool" where
  "endsWith s suf =
     (length suf \<le> length s \<and> drop (length s - length suf) s = suf)"

fun indexOf_from :: "int \<Rightarrow> char \<Rightarrow> string \<Rightarrow> int" where
  "indexOf_from k c [] = - 1"
| "indexOf_from k c (x # xs) = (if x = c then k else indexOf_from (k + 1) c xs)"

definition indexOf :: "string \<Rightarrow> char \<Rightarrow> int" where
  "indexOf s c = indexOf_from 0 c s"

definition substring :: "string \<Rightarrow> int \<Rightarrow> string" where
  \<comment> \<open>\<open>s.substring(i)\<close>: a negative start counts as 0, a start past the end gives the empty string\<close>
  "substring s i = drop (nat i) s"

text \<open>
  A thrown value. \<open>ExpectedError\<close> is the class of \<^verbatim>\<open>src/lib/errors\<close> that the
  sources import; \<open>TypeError\<close> is the error the language itself throws when a value that
  is not a function is called; \<open>OtherError\<close> stands for every error raised by a
  collaborator (the SDK, the image manager, the prompt, the file system). All carry their
  \<open>message\<close>.
\<close>

datatype error = ExpectedError string | TypeError string | OtherError string

fun message :: "error \<Rightarrow> string" where
  "message (ExpectedError m) = m"
| "message (TypeError m) = m"
| "message (OtherError m) = m"

section \<open>OS version catalog, resolver and menu (\<^verbatim>\<open>src/lib/utils/cloud.ts\<close>)\<close>

text \<open>\<open>SDK.OsVersion\<close>, with the four fields the code reads or writes.\<close>

record OsVersion =
  rawVersion :: string
  formattedVersion :: string
  osType :: string
  isRecommended :: bool

text \<open>One choice of the list prompt, and the options object handed to \<open>getCliForm().ask\<close>.\<close>

record choice =
  choice_value :: string
  choice_name :: string

record ask_options =
  ask_message :: string
  ask_type :: string
  ask_choices :: "choice list"
  ask_default :: "string option"

text \<open>
  What the code does to the outside world, in the order it does it. A run of an
  \<open>async\<close> function is the list of its effects together with how its promise settles:
  fulfilled with a value, rejected with an error, or never settled.

  \<open>GetAvailableOsVersions\<close>, \<open>Ask\<close> and \<open>ManagerGet\<close> are the calls of the SDK's catalog
  query, of \<open>getCliForm().ask\<close> and of \<open>manager.get\<close>; \<open>SetEnv\<close> is the assignment to
  \<open>process.env\<close>. \<open>ResolvedVersionObserved\<close> marks the turn in which the
  \<open>resolved-version\<close> listener fulfils the promise of \<open>displayVersion\<close>. \<open>NewProgress\<close>,
  \<open>NewSpinner\<close>, \<open>BarUpdate\<close>, \<open>SpinnerStart\<close> and \<open>SpinnerStop\<close> are the constructors
  and methods of \<open>visuals.Progress\<close> and \<open>visuals.Spinner\<close>. \<open>OpenOutput\<close> creates the
  output stage (\<open>unzip.Extract({ path })\<close> or \<open>fs.createWriteStream(path)\<close>), \<open>PipeChunk\<close>
  is a chunk the pipe writes into it and \<open>EndOutput\<close> the pipe ending it when the stream
  ends. The remaining effects are those of the release commands; \<open>UncaughtException\<close> is
  an \<open>error\<close> event emitted on a stream that has no \<open>error\<close> listener, which ends the
  process.
\<close>

datatype output_stage = UnzipExtract string | WriteStream string

datatype fleet = FleetNumber int | FleetString string | FleetUndefined

datatype effect =
    ConsoleInfo string
  | ConsoleWarn string
  | ConsoleLog string
  | GetAvailableOsVersions "string list"
  | Ask ask_options
  | SetEnv string string
  | ManagerGet string string
  | ResolvedVersionObserved string
  | NewProgress string
  | NewSpinner string
  | BarUpdate nat
  | SpinnerStart
  | SpinnerStop
  | OpenOutput output_stage
  | PipeChunk output_stage string
  | EndOutput output_stage
  | ReleaseGet string
  | BundleCreate nat
  | WriteFile string string
  | CreateReadStream string
  | ApplicationGet fleet
  | BundleApply nat string
  | UncaughtException error

text \<open>
  How the promise of a run settles. \<open>Uncaught\<close> is the end of the process on an uncaught
  exception while the promise is still pending.
\<close>

datatype 'a outcome = Returned 'a | Threw error | NeverSettles | Uncaught error

text \<open>
  The stream returned by \<open>manager.get\<close>: its \<open>mime\<close> property (possibly undefined) and
  the events that reach the run after the stream is handed over, one per turn of the event
  loop, in order. \<open>ResolvedVersion\<close> is \<^verbatim>\<open>balena-image-manager:resolved-version\<close>;
  \<open>Progress\<close> carries the state object or \<open>None\<close> for \<open>null\<close>/\<open>undefined\<close>; \<open>Data\<close> is a
  chunk of payload the stream produces; \<open>End\<close> and \<open>Error\<close> are the stream's own
  \<open>end\<close> and \<open>error\<close>. \<open>OutputFinish\<close> and \<open>OutputError\<close> are the events of the output
  stage the stream is piped into (the write stream or the unzip extractor): completion,
  and a write or decompression failure.
\<close>

datatype stream_event =
    ResolvedVersion string
  | Progress "nat option"
  | Data string
  | End
  | Error error
  | OutputFinish
  | OutputError error

record image_stream =
  mime :: "string option"
  schedule :: "stream_event list"

text \<open>
  The collaborators reached through \<^verbatim>\<open>./lazy\<close> and the dynamic imports, taken as
  parameters: the catalog query of the SDK (its promise is fulfilled with a mapping from
  device type to versions, or rejected), the list prompt, and the \<open>stripIndent\<close> template
  tag applied to the interpolated template text, and \<open>get\<close> of \<open>balena-image-manager\<close>.
\<close>

record cloud_env =
  getAvailableOsVersions :: "string list \<Rightarrow> error + (string \<Rightarrow> OsVersion list option)"
  cliForm_ask :: "ask_options \<Rightarrow> error + string"
  stripIndent :: "string \<Rightarrow> string"
  manager_get :: "string \<Rightarrow> string \<Rightarrow> error + image_stream"

definition reformat :: "OsVersion \<Rightarrow> OsVersion" where
  \<comment> \<open>the callback of \<open>.map\<close> in \<open>getFormattedOsVersions\<close>\<close>
  "reformat v =
     (let i = indexOf (formattedVersion v) (CHR '' '')
      in v\<lparr>formattedVersion :=
             (if i < 0 then ''v'' @ rawVersion v
              else ''v'' @ rawVersion v @ substring (formattedVersion v) i)\<rparr>)"

definition no_versions_template :: "string \<Rightarrow> string" where
  \<comment> \<open>the template literal of the \<open>ExpectedError\<close>, interpolated, before \<open>stripIndent\<close>\<close>
  "no_versions_template deviceType =
     [CHR 0x0A] @ [CHR 0x09, CHR 0x09, CHR 0x09] @
     ''Error: No balenaOS versions found for device type '' @ [CHR 0x27] @ deviceType @
     [CHR 0x27] @ ''.'' @ [CHR 0x0A] @ [CHR 0x09, CHR 0x09, CHR 0x09] @
     ''Double-check the device type slug with '' @ [CHR 0x27] @
     ''balena devices supported'' @ [CHR 0x27] @ ''.''"

text \<open>
  The SDK answers with a plain object whose own properties are the device types; the
  mapping of the model gives the own properties. Reading a property by name also finds the
  properties every plain object inherits from \<open>Object.prototype\<close>, listed here: their
  values are functions (for \<open>__proto__\<close>, the prototype object), none of them nullish and
  none with a \<open>filter\<close> method.
\<close>

definition Object_prototype_keys :: "string list" where
  "Object_prototype_keys =
     [''constructor'', ''__defineGetter__'', ''__defineSetter__'', ''hasOwnProperty'',
      ''__lookupGetter__'', ''__lookupSetter__'', ''isPrototypeOf'', ''propertyIsEnumerable'',
      ''toString'', ''valueOf'', ''__proto__'', ''toLocaleString'']"

definition catalog_lookup ::
  "(string \<Rightarrow> OsVersion list option) \<Rightarrow> string \<Rightarrow> error + OsVersion list" where
  \<comment> \<open>lines 247--252: \<open>(obj[deviceType] ?? []).filter\<close>, up to the call of \<open>filter\<close>: an own
      property is its array, no property at all is \<open>[]\<close>, and on an inherited property the
      call throws (the wording of the message is the engine's)\<close>
  "catalog_lookup byType deviceType =
     (case byType deviceType of
        Some vs \<Rightarrow> Inr vs
      | None \<Rightarrow>
          if deviceType \<in> set Object_prototype_keys
          then Inl (TypeError ''(intermediate value).filter is not a function'')
          else Inr [])"

definition getFormattedOsVersions ::
  "cloud_env \<Rightarrow> string \<Rightarrow> bool \<Rightarrow> effect list \<times> (error + OsVersion list)" where
  "getFormattedOsVersions env deviceType esr =
     (case getAvailableOsVersions env [deviceType] of
        Inl e \<Rightarrow> ([GetAvailableOsVersions [deviceType]], Inl e)
      | Inr byType \<Rightarrow>
          (case catalog_lookup byType deviceType of
             Inl e \<Rightarrow> ([GetAvailableOsVersions [deviceType]], Inl e)
           | Inr listed \<Rightarrow>
               (let versions =
                      map reformat
                        (filter (\<lambda>v. osType v = (if esr then ''esr'' else ''default''))
                           listed)
                in if length versions = 0
                   then ([GetAvailableOsVersions [deviceType]],
                         Inl (ExpectedError
                                (stripIndent env (no_versions_template deviceType))))
                   else ([GetAvailableOsVersions [deviceType]], Inr versions))))"

definition menu_default :: "OsVersion list \<Rightarrow> string option" where
  \<comment> \<open>\<open>(vs.find((v) => v.isRecommended) ?? vs[0])?.rawVersion\<close>\<close>
  "menu_default vs =
     (case find isRecommended vs of
        Some v \<Rightarrow> Some (rawVersion v)
      | None \<Rightarrow> (case vs of [] \<Rightarrow> None | v # _ \<Rightarrow> Some (rawVersion v)))"

definition menu_options :: "OsVersion list \<Rightarrow> ask_options" where
  "menu_options vs =
     \<lparr>ask_message = ''Select the OS version:'',
      ask_type = ''list'',
      ask_choices = map (\<lambda>v. \<lparr>choice_value = rawVersion v, choice_name = formattedVersion v\<rparr>) vs,
      ask_default = menu_default vs\<rparr>"

definition selectOSVersionFromMenu ::
  "cloud_env \<Rightarrow> string \<Rightarrow> bool \<Rightarrow> effect list \<times> (error + string)" where
  "selectOSVersionFromMenu env deviceType esr =
     (case getFormattedOsVersions env deviceType esr of
        (tr, Inl e) \<Rightarrow> (tr, Inl e)
      | (tr, Inr vs) \<Rightarrow> (tr @ [Ask (menu_options vs)], cliForm_ask env (menu_options vs)))"

definition resolveOSVersion ::
  "cloud_env \<Rightarrow> string \<Rightarrow> string \<Rightarrow> effect list \<times> (error + string)" where
  "resolveOSVersion env deviceType version =
     (if version \<in> set [''menu'', ''menu-esr'']
      then selectOSVersionFromMenu env deviceType (version = ''menu-esr'')
      else
        (let version1 = (case version of
                           c # rest \<Rightarrow> if c = CHR ''v'' then rest else version
                         | [] \<Rightarrow> version);
             version2 = (if \<not> endsWith version1 ''.dev'' \<and> \<not> endsWith version1 ''.prod''
                         then version1 @ ''.prod'' else version1)
         in ([], Inr version2)))"

subsection \<open>\<open>downloadOSImage\<close>\<close>

text \<open>
  Lines 151--154: the promise awaited for \<open>displayVersion\<close>. Only two listeners exist
  while it is pending: \<open>error\<close> (reject) and \<open>resolved-version\<close> (resolve). A \<open>progress\<close>
  or \<open>end\<close> event has no listener yet and is dropped; the stream is not piped yet, so a
  chunk it produces stays in its buffer (the second argument). When the events run out
  the promise is never settled: the result is \<open>None\<close>.
\<close>

fun await_resolved ::
  "stream_event list \<Rightarrow> string \<Rightarrow> (error + string \<times> string \<times> stream_event list) option" where
  "await_resolved [] buf = None"
| "await_resolved (Error e # rest) buf = Some (Inl e)"
| "await_resolved (ResolvedVersion v # rest) buf = Some (Inr (v, buf, rest))"
| "await_resolved (Data c # rest) buf = await_resolved rest (buf @ c)"
| "await_resolved (_ # rest) buf = await_resolved rest buf"

text \<open>
  Lines 164--189, after the listeners for \<open>progress\<close> (line 164) and \<open>end\<close> (line 172) are
  attached and the stream is piped into the output stage: the effects until
  \<open>streamToPromise(stream.pipe(output))\<close> settles, and how it settles (fulfilled when the
  output stage finishes, rejected when the output stage fails, \<open>None\<close> when neither ever
  happens). The flag says whether the stream has ended, after which the pipe writes no more.
  The \<open>error\<close> and \<open>resolved-version\<close> listeners of line 152 and 153 are still attached,
  but they reject and resolve a promise that is already settled, which does nothing.
\<close>

fun drain ::
  "output_stage \<Rightarrow> bool \<Rightarrow> stream_event list \<Rightarrow> effect list \<times> (error + unit) option" where
  "drain out ended [] = ([], None)"
| "drain out ended (Progress (Some st) # rest) =
     (case drain out ended rest of (tr, r) \<Rightarrow> (BarUpdate st # tr, r))"
| "drain out ended (Progress None # rest) =
     (case drain out ended rest of (tr, r) \<Rightarrow> (SpinnerStart # tr, r))"
| "drain out ended (Data c # rest) =
     (if ended then drain out ended rest
      else (case drain out ended rest of (tr, r) \<Rightarrow> (PipeChunk out c # tr, r)))"
| "drain out ended (End # rest) =
     (if ended then (case drain out True rest of (tr, r) \<Rightarrow> (SpinnerStop # tr, r))
      else (case drain out True rest of (tr, r) \<Rightarrow> (SpinnerStop # EndOutput out # tr, r)))"
| "drain out ended (Error e # rest) = drain out ended rest"
| "drain out ended (ResolvedVersion v # rest) = drain out ended rest"
| "drain out ended (OutputFinish # rest) = ([], Some (Inr ()))"
| "drain out ended (OutputError e # rest) = ([], Some (Inl e))"

definition select_output :: "string option \<Rightarrow> string \<Rightarrow> output_stage" where
  \<comment> \<open>lines 179--186: \<open>stream.mime === 'application/zip'\<close>\<close>
  "select_output m outputPath =
     (if m = Some ''application/zip'' then UnzipExtract outputPath else WriteStream outputPath)"

definition consume_stream ::
  "string \<Rightarrow> image_stream \<Rightarrow> effect list \<times> string outcome" where
  \<comment> \<open>lines 151--195, from the stream to the return\<close>
  "consume_stream outputPath stream =
     (case await_resolved (schedule stream) [] of
        None \<Rightarrow> ([], NeverSettles)
      | Some (Inl e) \<Rightarrow> ([], Threw e)
      | Some (Inr (displayVersion, buffered, rest)) \<Rightarrow>
          (let out = select_output (mime stream) outputPath;
               tr1 = [ResolvedVersionObserved displayVersion,
                      NewProgress (''Downloading balenaOS version '' @ displayVersion),
                      NewSpinner (''Downloading balenaOS version '' @ displayVersion
                                  @ '' (size unknown)''),
                      OpenOutput out]
                     @ (if buffered = [] then [] else [PipeChunk out buffered])
           in case drain out False rest of
                (tr2, None) \<Rightarrow> (tr1 @ tr2, NeverSettles)
              | (tr2, Some (Inl e)) \<Rightarrow> (tr1 @ tr2, Threw e)
              | (tr2, Some (Inr u)) \<Rightarrow>
                  (tr1 @ tr2 @
                   [ConsoleInfo (''balenaOS image version '' @ displayVersion
                                 @ '' downloaded successfully'')],
                   Returned outputPath)))"

definition requested_version ::
  "cloud_env \<Rightarrow> string \<Rightarrow> string option \<Rightarrow> effect list \<times> (error + string)" where
  \<comment> \<open>lines 132--138; \<open>undefined\<close> and the empty string are the falsy values of \<open>OSVersion\<close>\<close>
  "requested_version env deviceType OSVersion =
     (case OSVersion of
        None \<Rightarrow>
          ([ConsoleWarn ''OS version not specified: using latest released version''],
           Inr ''default'')
      | Some v \<Rightarrow>
          (if v = []
           then ([ConsoleWarn ''OS version not specified: using latest released version''],
                 Inr ''default'')
           else resolveOSVersion env deviceType v))"

definition downloadOSImage ::
  "cloud_env \<Rightarrow> string \<Rightarrow> string \<Rightarrow> string option \<Rightarrow> effect list \<times> string outcome" where
  "downloadOSImage env deviceType outputPath OSVersion =
     (let tr0 = [ConsoleInfo (''Getting device operating system for '' @ deviceType)]
      in case requested_version env deviceType OSVersion of
           (tr1, Inl e) \<Rightarrow> (tr0 @ tr1, Threw e)
         | (tr1, Inr version) \<Rightarrow>
             (let tr2 = tr0 @ tr1 @ [SetEnv ''ZLIB_FLUSH'' ''Z_NO_FLUSH'',
                                     ManagerGet deviceType version]
              in case manager_get env deviceType version of
                   Inl e \<Rightarrow> (tr2, Threw e)
                 | Inr stream \<Rightarrow>
                     (case consume_stream outputPath stream of
                        (tr3, r) \<Rightarrow> (tr2 @ tr3, r))))"

text \<open>Readings of a trace and of a schedule, used to state the properties.\<close>

fun is_renderer :: "effect \<Rightarrow> bool" where
  \<comment> \<open>the effects on \<open>visuals.Progress\<close> and \<open>visuals.Spinner\<close>\<close>
  "is_renderer (NewProgress m) = True"
| "is_renderer (NewSpinner m) = True"
| "is_renderer (BarUpdate st) = True"
| "is_renderer SpinnerStart = True"
| "is_renderer SpinnerStop = True"
| "is_renderer _ = False"

fun progress_effects :: "effect list \<Rightarrow> nat option list" where
  "progress_effects [] = []"
| "progress_effects (BarUpdate st # tr) = Some st # progress_effects tr"
| "progress_effects (SpinnerStart # tr) = None # progress_effects tr"
| "progress_effects (_ # tr) = progress_effects tr"

fun progress_events :: "stream_event list \<Rightarrow> nat option list" where
  "progress_events [] = []"
| "progress_events (Progress st # evs) = st # progress_events evs"
| "progress_events (_ # evs) = progress_events evs"

fun settles_version :: "stream_event \<Rightarrow> bool" where
  \<comment> \<open>the two events that settle the promise of lines 151--154\<close>
  "settles_version (ResolvedVersion v) = True"
| "settles_version (Error e) = True"
| "settles_version _ = False"

fun progress_or_data :: "stream_event \<Rightarrow> bool" where
  "progress_or_data (Progress st) = True"
| "progress_or_data (Data c) = True"
| "progress_or_data _ = False"

fun output_event :: "stream_event \<Rightarrow> bool" where
  \<comment> \<open>the events of the output stage, which settle \<open>streamToPromise\<close>\<close>
  "output_event OutputFinish = True"
| "output_event (OutputError e) = True"
| "output_event _ = False"

fun data_of :: "stream_event list \<Rightarrow> string" where
  "data_of [] = []"
| "data_of (Data c # evs) = c @ data_of evs"
| "data_of (_ # evs) = data_of evs"

fun piped :: "effect list \<Rightarrow> string" where
  \<comment> \<open>the bytes written into the output stage, in order\<close>
  "piped [] = []"
| "piped (PipeChunk out c # tr) = c @ piped tr"
| "piped (_ # tr) = piped tr"

fun stages :: "effect list \<Rightarrow> output_stage list" where
  \<comment> \<open>the output stages a trace opens, writes to or ends\<close>
  "stages [] = []"
| "stages (OpenOutput out # tr) = out # stages tr"
| "stages (PipeChunk out c # tr) = out # stages tr"
| "stages (EndOutput out # tr) = out # stages tr"
| "stages (_ # tr) = stages tr"

fun requests :: "effect list \<Rightarrow> (string \<times> string) list" where
  \<comment> \<open>the calls of \<open>manager.get\<close>: device type and version\<close>
  "requests [] = []"
| "requests (ManagerGet t v # tr) = (t, v) # requests tr"
| "requests (_ # tr) = requests tr"

subsection \<open>The memoized lookups\<close>

text \<open>
  The parts of the SDK the three lookups call. A service has a \<open>service_name\<close>; an object
  returned by the API is the list of its own properties, and a device has its
  \<open>belongs_to__application\<close> array beside them. \<open>pine_options\<close> is the object built in
  lines 91--98: \<open>expand_select\<close> is \<open>None\<close> for the plain string
  \<^verbatim>\<open>'belongs_to__application'\<close>, \<open>Some fields\<close> for the nested \<open>$select\<close>.
\<close>

record service =
  service_name :: string

record application =
  app_props :: "(string \<times> string) list"

record device =
  device_props :: "(string \<times> string) list"
  belongs_to__application :: "application list"

record pine_options =
  expand_select :: "string list option"
  pine_select :: "string list option"

record sdk =
  pine_get_service :: "int \<Rightarrow> error + service option"
  device_get :: "string \<Rightarrow> pine_options \<Rightarrow> error + device"

text \<open>
  \<open>Number.prototype.toString\<close> on an integer: decimal digits, with a minus sign. This is
  the rendering of integers below \<open>10\<^sup>2\<^sup>1\<close> in absolute value, where identifiers lie; from
  there on the language switches to exponent notation.
\<close>

definition digit :: "nat \<Rightarrow> char" where
  "digit n = ''0123456789'' ! (n mod 10)"

function nat_toString :: "nat \<Rightarrow> string" where
  "nat_toString n = (if n < 10 then [digit n] else nat_toString (n div 10) @ [digit n])"
  by pat_completeness auto
termination
  by (relation "measure id") auto

definition int_toString :: "int \<Rightarrow> string" where
  "int_toString i = (if i < 0 then ''-'' @ nat_toString (nat (- i)) else nat_toString (nat i))"

text \<open>
  The three \<open>memoized.cache\<close> maps of the module. What is cached is the promise the
  \<open>async\<close> function returned, so a rejection is cached as well.
\<close>

record caches =
  serviceIdToName_cache :: "string \<Rightarrow> (error + string option) option"
  getDeviceAndAppFromUUID_cache :: "string \<Rightarrow> (error + device \<times> application) option"
  getDeviceAndMaybeAppFromUUID_cache ::
    "string \<Rightarrow> (error + device \<times> application option) option"

text \<open>
  \<open>_.memoize(func, resolver)\<close> of lodash: the key is what the resolver returns; on a hit
  the cached value is returned and \<open>func\<close> is not called; on a miss \<open>func\<close> runs (it may
  touch the caches itself) and its result is stored under the key. The cache is given by
  its getter and setter in the record of caches.
\<close>

definition memoize ::
  "(caches \<Rightarrow> 'k \<Rightarrow> 'r option) \<Rightarrow> (('k \<Rightarrow> 'r option) \<Rightarrow> caches \<Rightarrow> caches) \<Rightarrow>
   (caches \<Rightarrow> 'r \<times> caches) \<Rightarrow> 'k \<Rightarrow> caches \<Rightarrow> 'r \<times> caches" where
  "memoize getc setc func key c =
     (case getc c key of
        Some r \<Rightarrow> (r, c)
      | None \<Rightarrow> (case func c of (r, c') \<Rightarrow> (r, setc ((getc c')(key \<mapsto> r)) c')))"

definition serviceIdToName :: "sdk \<Rightarrow> int \<Rightarrow> caches \<Rightarrow> (error + string option) \<times> caches" where
  "serviceIdToName s serviceId =
     memoize serviceIdToName_cache (\<lambda>m c. c\<lparr>serviceIdToName_cache := m\<rparr>)
       (\<lambda>c. (case pine_get_service s serviceId of
                Inl e \<Rightarrow> Inl e
              | Inr None \<Rightarrow> Inr None
              | Inr (Some serviceName) \<Rightarrow> Inr (Some (service_name serviceName)), c))
       (int_toString serviceId)"

definition getDeviceAndMaybeAppFromUUID ::
  "sdk \<Rightarrow> string \<Rightarrow> string list option \<Rightarrow> string list option \<Rightarrow> caches \<Rightarrow>
   (error + device \<times> application option) \<times> caches" where
  "getDeviceAndMaybeAppFromUUID s deviceUUID selectDeviceFields selectAppFields =
     memoize getDeviceAndMaybeAppFromUUID_cache
       (\<lambda>m c. c\<lparr>getDeviceAndMaybeAppFromUUID_cache := m\<rparr>)
       (\<lambda>c. (case device_get s deviceUUID
                     \<lparr>expand_select = selectAppFields, pine_select = selectDeviceFields\<rparr> of
                Inl e \<Rightarrow> Inl e
              | Inr dev \<Rightarrow>
                  (case belongs_to__application dev of
                     [] \<Rightarrow> Inr (dev, None)
                   | app # _ \<Rightarrow> if app_props app = [] then Inr (dev, None)
                                else Inr (dev, Some app)), c))
       deviceUUID"

definition no_access_template :: "string \<Rightarrow> string" where
  "no_access_template deviceUUID =
     [CHR 0x0A] @ [CHR 0x09, CHR 0x09, CHR 0x09, CHR 0x09] @
     ''Unable to access the fleet that device '' @ deviceUUID @ '' belongs to.'' @
     [CHR 0x0A] @ [CHR 0x09, CHR 0x09, CHR 0x09, CHR 0x09] @
     ''Hint: check whether the fleet owner withdrew access to it.'' @
     [CHR 0x0A] @ [CHR 0x09, CHR 0x09, CHR 0x09]"

definition getDeviceAndAppFromUUID ::
  "(string \<Rightarrow> string) \<Rightarrow> sdk \<Rightarrow> string \<Rightarrow> string list option \<Rightarrow> string list option \<Rightarrow>
   caches \<Rightarrow> (error + device \<times> application) \<times> caches" where
  \<comment> \<open>the first argument is the \<open>stripIndent\<close> template tag\<close>
  "getDeviceAndAppFromUUID strip s deviceUUID selectDeviceFields selectAppFields =
     memoize getDeviceAndAppFromUUID_cache
       (\<lambda>m c. c\<lparr>getDeviceAndAppFromUUID_cache := m\<rparr>)
       (\<lambda>c. case getDeviceAndMaybeAppFromUUID s deviceUUID selectDeviceFields
                   selectAppFields c of
               (Inl e, c') \<Rightarrow> (Inl e, c')
             | (Inr (dev, None), c') \<Rightarrow>
                 (Inl (ExpectedError (strip (no_access_template deviceUUID))), c')
             | (Inr (dev, Some app), c') \<Rightarrow> (Inr (dev, app), c'))
       deviceUUID"

text \<open>A process run is a sequence of calls of the three lookups, each on the caches the
  previous one left.\<close>

datatype lookup_call =
    CallServiceIdToName sdk int
  | CallGetDeviceAndApp sdk string "string list option" "string list option"
  | CallGetDeviceAndMaybeApp sdk string "string list option" "string list option"

fun run_call :: "(string \<Rightarrow> string) \<Rightarrow> lookup_call \<Rightarrow> caches \<Rightarrow> caches" where
  "run_call strip (CallServiceIdToName s i) c = snd (serviceIdToName s i c)"
| "run_call strip (CallGetDeviceAndApp s u df af) c =
     snd (getDeviceAndAppFromUUID strip s u df af c)"
| "run_call strip (CallGetDeviceAndMaybeApp s u df af) c =
     snd (getDeviceAndMaybeAppFromUUID s u df af c)"

fun run_calls :: "(string \<Rightarrow> string) \<Rightarrow> lookup_call list \<Rightarrow> caches \<Rightarrow> caches" where
  "run_calls strip [] c = c"
| "run_calls strip (x # xs) c = run_calls strip xs (run_call strip x c)"

definition empty_caches :: caches where
  "empty_caches =
     \<lparr>serviceIdToName_cache = Map.empty,
      getDeviceAndAppFromUUID_cache = Map.empty,
      getDeviceAndMaybeAppFromUUID_cache = Map.empty\<rparr>"

text \<open>The entries of one state of the caches are all still there in another.\<close>

definition keeps :: "caches \<Rightarrow> caches \<Rightarrow> bool" where
  "keeps c c' \<longleftrightarrow>
     (\<forall>k r. serviceIdToName_cache c k = Some r \<longrightarrow> serviceIdToName_cache c' k = Some r) \<and>
     (\<forall>k r. getDeviceAndAppFromUUID_cache c k = Some r \<longrightarrow>
            getDeviceAndAppFromUUID_cache c' k = Some r) \<and>
     (\<forall>k r. getDeviceAndMaybeAppFromUUID_cache c k = Some r \<longrightarrow>
            getDeviceAndMaybeAppFromUUID_cache c' k = Some r)"

section \<open>The release commands (\<^verbatim>\<open>src/lib/commands/release\<close>)\<close>

text \<open>
  \<open>run\<close> of both commands, from the parsed arguments and flags on. The collaborators are
  parameters: the SDK's \<open>release.get\<close> and \<open>application.get\<close> (the \<open>id\<close> they select),
  \<open>create\<close> and \<open>apply\<close> of \<^verbatim>\<open>@balena/release-bundle\<close>, \<open>fs.writeFile\<close>, and
  what opening a file for reading gives: \<open>None\<close> when the file opens, the error otherwise.
\<close>

record release_env =
  release_get :: "string \<Rightarrow> error + nat"
  bundle_create :: "nat \<Rightarrow> error + string"
  fs_writeFile :: "string \<Rightarrow> string \<Rightarrow> error + unit"
  application_get :: "fleet \<Rightarrow> error + nat"
  bundle_apply :: "nat \<Rightarrow> string \<Rightarrow> error + unit"
  fs_open :: "string \<Rightarrow> error option"

definition export_failed :: "string \<Rightarrow> error \<Rightarrow> effect" where
  "export_failed commitOrId e =
     ConsoleLog (''Release '' @ commitOrId @ '' could not be exported. '' @ message e)"

definition export_done :: "string \<Rightarrow> string \<Rightarrow> effect" where
  "export_done commitOrId output =
     ConsoleLog (''Release '' @ commitOrId @ '' has been exported to '' @ output @ ''.'')"

definition ReleaseExportCmd_run ::
  "release_env \<Rightarrow> string \<Rightarrow> string \<Rightarrow> effect list \<times> unit outcome" where
  "ReleaseExportCmd_run env commitOrId output =
     (case release_get env commitOrId of
        Inl e \<Rightarrow> ([ReleaseGet commitOrId], Threw e)
      | Inr releaseId \<Rightarrow>
          (let tried =
                 (case bundle_create env releaseId of
                    Inl e \<Rightarrow> [BundleCreate releaseId, export_failed commitOrId e]
                  | Inr releaseBundle \<Rightarrow>
                      (case fs_writeFile env output releaseBundle of
                         Inl e \<Rightarrow> [BundleCreate releaseId, WriteFile output releaseBundle,
                                   export_failed commitOrId e]
                       | Inr u \<Rightarrow> [BundleCreate releaseId, WriteFile output releaseBundle]))
           in ([ReleaseGet commitOrId] @ tried @ [export_done commitOrId output],
               Returned ())))"

fun fleet_text :: "fleet \<Rightarrow> string" where
  \<comment> \<open>\<open>${options.fleet}\<close> in a template literal\<close>
  "fleet_text (FleetNumber n) = int_toString n"
| "fleet_text (FleetString s) = s"
| "fleet_text FleetUndefined = ''undefined''"

definition import_failed :: "fleet \<Rightarrow> error \<Rightarrow> effect" where
  "import_failed fl e =
     ConsoleLog (''Could not apply release bundle to fleet '' @ fleet_text fl @ ''. ''
                 @ message e)"

definition import_done :: "string \<Rightarrow> fleet \<Rightarrow> effect" where
  "import_done bundle fl =
     ConsoleLog (''Release bundle '' @ bundle @ '' has been applied to '' @ fleet_text fl
                 @ ''.'')"

text \<open>
  \<open>createReadStream\<close> (line 56) is called before the \<open>try\<close> and returns at once; the file
  is opened in the background, and a failure to open it is an \<open>error\<close> event on the
  stream, which has no \<open>error\<close> listener. With no fleet flag the rest of \<open>run\<close> has no
  \<open>await\<close>: both messages are printed and \<open>run\<close> returns before that event can be
  delivered. Otherwise \<open>run\<close> waits for the SDK's answer over the network, and the event
  is delivered, and ends the process, while it waits.
\<close>

definition ReleaseImportCmd_run ::
  "release_env \<Rightarrow> string \<Rightarrow> fleet \<Rightarrow> effect list \<times> unit outcome" where
  "ReleaseImportCmd_run env bundle fl =
     (if fl = FleetUndefined
      then ([CreateReadStream bundle,
             import_failed fl (OtherError ''Fleet must be a number or slug.''),
             import_done bundle fl]
            @ (case fs_open env bundle of None \<Rightarrow> [] | Some e \<Rightarrow> [UncaughtException e]),
            Returned ())
      else
        (case fs_open env bundle of
           Some e \<Rightarrow>
             ([CreateReadStream bundle, ApplicationGet fl, UncaughtException e], Uncaught e)
         | None \<Rightarrow>
             (let tried =
                    (case application_get env fl of
                       Inl e \<Rightarrow> [ApplicationGet fl, import_failed fl e]
                     | Inr appId \<Rightarrow>
                         (case bundle_apply env appId bundle of
                            Inl e \<Rightarrow> [ApplicationGet fl, BundleApply appId bundle,
                                      import_failed fl e]
                          | Inr u \<Rightarrow> [ApplicationGet fl, BundleApply appId bundle]))
              in ([CreateReadStream bundle] @ tried @ [import_done bundle fl],
                  Returned ()))))"


section \<open>Concrete inputs\<close>

text \<open>
  A catalog with two default versions and one ESR version for \<open>raspberrypi3\<close> and nothing
  for any other device type, a prompt that answers with the default it is given, and an
  image store that serves a zip stream of two chunks.
\<close>

definition version_A :: OsVersion where
  "version_A = \<lparr>rawVersion = ''A'', formattedVersion = ''A'', osType = ''default'',
                isRecommended = False\<rparr>"

definition version_B :: OsVersion where
  "version_B = \<lparr>rawVersion = ''B'', formattedVersion = ''B (Kasumi)'', osType = ''default'',
                isRecommended = True\<rparr>"

definition version_E :: OsVersion where
  "version_E = \<lparr>rawVersion = ''2023.1.0'', formattedVersion = ''2023.1.0 ESR'',
                osType = ''esr'', isRecommended = False\<rparr>"

definition zip_stream :: image_stream where
  "zip_stream =
     \<lparr>mime = Some ''application/zip'',
      schedule = [ResolvedVersion ''2.88.4'', Progress None, Data ''PK'', Progress (Some 50),
                  Data ''zz'', End, OutputFinish]\<rparr>"

definition example_catalog :: "string \<Rightarrow> OsVersion list option" where
  "example_catalog t =
     (if t = ''raspberrypi3'' then Some [version_A, version_E, version_B] else None)"

definition example_env :: cloud_env where
  "example_env =
     \<lparr>getAvailableOsVersions = (\<lambda>types. Inr example_catalog),
      cliForm_ask =
        (\<lambda>opts. case ask_default opts of
                   Some d \<Rightarrow> Inr d
                 | None \<Rightarrow> Inl (OtherError ''no default'')),
      stripIndent = (\<lambda>s. s),
      manager_get = (\<lambda>deviceType version. Inr zip_stream)\<rparr>"

text \<open>The same with a catalog of exactly the two default versions, for every device type.\<close>

definition menu_catalog :: "string \<Rightarrow> OsVersion list option" where
  "menu_catalog t = Some [version_A, version_B]"

definition menu_env :: cloud_env where
  "menu_env = example_env\<lparr>getAvailableOsVersions := (\<lambda>types. Inr menu_catalog)\<rparr>"

text \<open>
  An image store whose stream announces its version, delivers one chunk and then fails:
  the connection is reset in the middle of the transfer.
\<close>

definition reset_stream :: image_stream where
  "reset_stream =
     \<lparr>mime = None,
      schedule = [ResolvedVersion ''2.88.4'', Data ''abc'', Error (OtherError ''ECONNRESET'')]\<rparr>"

definition reset_env :: cloud_env where
  "reset_env = example_env\<lparr>manager_get := (\<lambda>deviceType version. Inr reset_stream)\<rparr>"

text \<open>A stream that fails before it announces a version.\<close>

definition refused_stream :: image_stream where
  "refused_stream =
     \<lparr>mime = Some ''application/zip'',
      schedule = [Progress None, Error (OtherError ''ECONNREFUSED''), ResolvedVersion ''2.88.4'',
                  Progress (Some 10)]\<rparr>"

definition refused_env :: cloud_env where
  "refused_env = example_env\<lparr>manager_get := (\<lambda>deviceType version. Inr refused_stream)\<rparr>"

text \<open>A raw image of two chunks.\<close>

definition raw_stream :: image_stream where
  "raw_stream =
     \<lparr>mime = Some ''application/octet-stream'',
      schedule = [ResolvedVersion ''2.88.4''] @ [Data ''ab'', Progress (Some 50), Data ''cd'']
                 @ [End, OutputFinish]\<rparr>"

definition raw_env :: cloud_env where
  "raw_env = example_env\<lparr>manager_get := (\<lambda>deviceType version. Inr raw_stream)\<rparr>"

text \<open>Two SDK sessions that answer differently, and answer by the fields selected.\<close>

definition pick_fields :: "string list option \<Rightarrow> (string \<times> string) list \<Rightarrow> (string \<times> string) list" where
  "pick_fields sel props =
     (case sel of None \<Rightarrow> props | Some fs \<Rightarrow> filter (\<lambda>kv. fst kv \<in> set fs) props)"

definition sdk_one :: sdk where
  "sdk_one =
     \<lparr>pine_get_service = (\<lambda>i. Inr (Some \<lparr>service_name = ''main''\<rparr>)),
      device_get =
        (\<lambda>uuid opts. Inr
           \<lparr>device_props =
              pick_fields (pine_select opts) [(''uuid'', uuid), (''device_name'', ''kitchen'')],
            belongs_to__application =
              [\<lparr>app_props =
                  pick_fields (expand_select opts) [(''id'', ''1''), (''slug'', ''org/fleet'')]\<rparr>]\<rparr>)\<rparr>"

definition sdk_two :: sdk where
  "sdk_two =
     \<lparr>pine_get_service = (\<lambda>i. Inr (Some \<lparr>service_name = ''sidecar''\<rparr>)),
      device_get = (\<lambda>uuid opts. Inl (OtherError ''Device not found''))\<rparr>"

text \<open>Collaborators of the release commands: one where the bundle file opens and the
  bundle step fails, one where the release is not found.\<close>

definition bundle_fails_env :: release_env where
  "bundle_fails_env =
     \<lparr>release_get = (\<lambda>commitOrId. Inr 7),
      bundle_create = (\<lambda>releaseId. Inl (OtherError ''Release is not successful'')),
      fs_writeFile = (\<lambda>path contents. Inr ()),
      application_get = (\<lambda>fl. Inr 3),
      bundle_apply = (\<lambda>appId bundle. Inl (OtherError ''Invalid bundle'')),
      fs_open = (\<lambda>path. None)\<rparr>"

definition release_missing_env :: release_env where
  "release_missing_env =
     bundle_fails_env\<lparr>release_get := (\<lambda>commitOrId. Inl (OtherError ''Release not found''))\<rparr>"

text \<open>The same collaborators where the bundle file does not exist.\<close>

definition bundle_missing_env :: release_env where
  "bundle_missing_env =
     bundle_fails_env\<lparr>fs_open := (\<lambda>path. Some (OtherError ''ENOENT: no such file or directory''))\<rparr>"

section \<open>Properties\<close>

lemma endsWith_iff: "endsWith s suf \<longleftrightarrow> (\<exists>p. s = p @ suf)"
proof
  assume "endsWith s suf"
  then have "s = take (length s - length suf) s @ suf"
    unfolding endsWith_def by (metis append_take_drop_id)
  then show "\<exists>p. s = p @ suf" ..
next
  assume "\<exists>p. s = p @ suf"
  then show "endsWith s suf"
    unfolding endsWith_def by auto
qed

lemma indexOf_from_cases:
  "indexOf_from k c s =
     (if c \<in> set s then k + int (length (takeWhile (\<lambda>x. x \<noteq> c) s)) else - 1)"
  by (induction s arbitrary: k) auto

lemma indexOf_neg: "indexOf s c < 0 \<longleftrightarrow> c \<notin> set s"
  by (simp add: indexOf_def indexOf_from_cases)

lemma substring_indexOf:
  "c \<in> set s \<Longrightarrow> substring s (indexOf s c) = dropWhile (\<lambda>x. x \<noteq> c) s"
  by (simp add: indexOf_def indexOf_from_cases substring_def dropWhile_eq_drop)

lemma reformat_fields:
  "rawVersion (reformat v) = rawVersion v"
  "osType (reformat v) = osType v"
  "isRecommended (reformat v) = isRecommended v"
  by (simp_all add: reformat_def Let_def)

lemma reformat_label:
  "formattedVersion (reformat v) =
     (if CHR '' '' \<in> set (formattedVersion v)
      then ''v'' @ rawVersion v @ dropWhile (\<lambda>x. x \<noteq> CHR '' '') (formattedVersion v)
      else ''v'' @ rawVersion v)"
  by (simp add: reformat_def Let_def indexOf_neg substring_indexOf)

subsection \<open>The catalog\<close>

lemma catalog_lookup_own:
  "byType deviceType = Some vs \<Longrightarrow> catalog_lookup byType deviceType = Inr vs"
  by (simp add: catalog_lookup_def)

lemma getFormattedOsVersions_ok:
  assumes q: "getAvailableOsVersions env [deviceType] = Inr byType"
    and p: "part = filter (\<lambda>v. osType v = (if esr then ''esr'' else ''default''))
                     (case byType deviceType of None \<Rightarrow> [] | Some vs \<Rightarrow> vs)"
    and ne: "part \<noteq> []"
  shows "getFormattedOsVersions env deviceType esr =
           ([GetAvailableOsVersions [deviceType]], Inr (map reformat part))"
proof (cases "byType deviceType")
  case None
  with p ne show ?thesis by simp
next
  case (Some vs)
  then have "catalog_lookup byType deviceType = Inr vs"
    by (rule catalog_lookup_own)
  with ne p Some show ?thesis
    unfolding getFormattedOsVersions_def q by (simp add: Let_def)
qed

lemma getFormattedOsVersions_empty:
  assumes q: "getAvailableOsVersions env [deviceType] = Inr byType"
    and p: "filter (\<lambda>v. osType v = (if esr then ''esr'' else ''default''))
                     (case byType deviceType of None \<Rightarrow> [] | Some vs \<Rightarrow> vs) = []"
    and k: "byType deviceType = None \<Longrightarrow> deviceType \<notin> set Object_prototype_keys"
  shows "getFormattedOsVersions env deviceType esr =
           ([GetAvailableOsVersions [deviceType]],
            Inl (ExpectedError (stripIndent env (no_versions_template deviceType))))"
proof (cases "byType deviceType")
  case None
  with k have "catalog_lookup byType deviceType = Inr []"
    by (simp add: catalog_lookup_def)
  then show ?thesis
    unfolding getFormattedOsVersions_def q by (simp add: Let_def)
next
  case (Some vs)
  then have "catalog_lookup byType deviceType = Inr vs"
    by (rule catalog_lookup_own)
  with p Some show ?thesis
    unfolding getFormattedOsVersions_def q by (simp add: Let_def)
qed

lemma getFormattedOsVersions_nonempty:
  "getFormattedOsVersions env deviceType esr = (tr, Inr vs) \<Longrightarrow> vs \<noteq> []"
  unfolding getFormattedOsVersions_def
  by (auto simp: Let_def split: sum.splits if_splits)

text \<open>
  C2. When the catalog, filtered to the requested partition (\<open>esr\<close> when the flag is set,
  \<open>default\<close> otherwise), is not empty, \<open>getFormattedOsVersions\<close> returns that partition
  in order: every returned descriptor has the requested \<open>osType\<close>, and its
  \<open>formattedVersion\<close> is \<open>v\<close> followed by the \<open>rawVersion\<close> when the upstream label has no
  space, and \<open>v\<close>, the \<open>rawVersion\<close> and the label from its first space on otherwise. So
  every returned \<open>formattedVersion\<close> starts with \<open>v\<close>.
\<close>

theorem getFormattedOsVersions_partition:
  assumes q: "getAvailableOsVersions env [deviceType] = Inr byType"
    and p: "part = filter (\<lambda>v. osType v = (if esr then ''esr'' else ''default''))
                     (case byType deviceType of None \<Rightarrow> [] | Some vs \<Rightarrow> vs)"
    and ne: "part \<noteq> []"
  shows "\<exists>vs. getFormattedOsVersions env deviceType esr =
                ([GetAvailableOsVersions [deviceType]], Inr vs) \<and>
              length vs = length part \<and>
              (\<forall>i<length vs.
                 osType (vs ! i) = (if esr then ''esr'' else ''default'') \<and>
                 rawVersion (vs ! i) = rawVersion (part ! i) \<and>
                 isRecommended (vs ! i) = isRecommended (part ! i) \<and>
                 formattedVersion (vs ! i) =
                   (if CHR '' '' \<notin> set (formattedVersion (part ! i))
                    then ''v'' @ rawVersion (part ! i)
                    else ''v'' @ rawVersion (part ! i) @
                         dropWhile (\<lambda>c. c \<noteq> CHR '' '') (formattedVersion (part ! i))) \<and>
                 (\<exists>rest. formattedVersion (vs ! i) = CHR ''v'' # rest))"
proof -
  have all: "\<forall>v\<in>set part. osType v = (if esr then ''esr'' else ''default'')"
    unfolding p by simp
  have "\<forall>i<length part.
          osType (map reformat part ! i) = (if esr then ''esr'' else ''default'') \<and>
          rawVersion (map reformat part ! i) = rawVersion (part ! i) \<and>
          isRecommended (map reformat part ! i) = isRecommended (part ! i) \<and>
          formattedVersion (map reformat part ! i) =
            (if CHR '' '' \<notin> set (formattedVersion (part ! i))
             then ''v'' @ rawVersion (part ! i)
             else ''v'' @ rawVersion (part ! i) @
                  dropWhile (\<lambda>c. c \<noteq> CHR '' '') (formattedVersion (part ! i))) \<and>
          (\<exists>rest. formattedVersion (map reformat part ! i) = CHR ''v'' # rest)"
    using all by (simp add: reformat_fields reformat_label)
  with getFormattedOsVersions_ok [OF q p ne] show ?thesis
    by (intro exI [of _ "map reformat part"]) simp
qed

theorem getFormattedOsVersions_partition_witness:
  "getAvailableOsVersions example_env [''raspberrypi3''] = Inr example_catalog \<and>
   [version_A, version_B] =
     filter (\<lambda>v. osType v = (if False then ''esr'' else ''default''))
       (case example_catalog ''raspberrypi3'' of None \<Rightarrow> [] | Some vs \<Rightarrow> vs) \<and>
   [version_A, version_B] \<noteq> [] \<and>
   (\<exists>vs. getFormattedOsVersions example_env ''raspberrypi3'' False =
           ([GetAvailableOsVersions [''raspberrypi3'']], Inr vs) \<and>
         length vs = length [version_A, version_B] \<and>
         (\<forall>i<length vs.
            osType (vs ! i) = (if False then ''esr'' else ''default'') \<and>
            rawVersion (vs ! i) = rawVersion ([version_A, version_B] ! i) \<and>
            isRecommended (vs ! i) = isRecommended ([version_A, version_B] ! i) \<and>
            formattedVersion (vs ! i) =
              (if CHR '' '' \<notin> set (formattedVersion ([version_A, version_B] ! i))
               then ''v'' @ rawVersion ([version_A, version_B] ! i)
               else ''v'' @ rawVersion ([version_A, version_B] ! i) @
                    dropWhile (\<lambda>c. c \<noteq> CHR '' '')
                      (formattedVersion ([version_A, version_B] ! i))) \<and>
            (\<exists>rest. formattedVersion (vs ! i) = CHR ''v'' # rest)))"
proof -
  have q: "getAvailableOsVersions example_env [''raspberrypi3''] = Inr example_catalog"
    by (simp add: example_env_def)
  have p: "[version_A, version_B] =
     filter (\<lambda>v. osType v = (if False then ''esr'' else ''default''))
       (case example_catalog ''raspberrypi3'' of None \<Rightarrow> [] | Some vs \<Rightarrow> vs)"
    by (simp add: example_catalog_def version_A_def version_B_def version_E_def)
  have ne: "[version_A, version_B] \<noteq> []"
    by simp
  from getFormattedOsVersions_partition [OF q p ne] q p ne show ?thesis
    by blast
qed

text \<open>
  C3. A device type the catalog does not list should end in the \<open>ExpectedError\<close> that
  names it, and does so when its name is not a property every object inherits (lemma
  \<open>getFormattedOsVersions_empty\<close>). For the device type \<open>constructor\<close> the lookup finds the
  inherited property instead of nothing, the fallback to the empty list is not taken, and
  the call of \<open>filter\<close> throws a \<open>TypeError\<close>: no \<open>ExpectedError\<close>, and no message naming
  the device type.
\<close>

theorem getFormattedOsVersions_inherited_key:
  "getFormattedOsVersions example_env ''constructor'' False =
     ([GetAvailableOsVersions [''constructor'']],
      Inl (TypeError ''(intermediate value).filter is not a function'')) \<and>
   example_catalog ''constructor'' = None"
  by (simp add: getFormattedOsVersions_def catalog_lookup_def Object_prototype_keys_def
      example_env_def example_catalog_def)

subsection \<open>The menu\<close>

lemma find_Some_split:
  "find P xs = Some r \<Longrightarrow> \<exists>pre post. xs = pre @ r # post \<and> P r \<and> (\<forall>x\<in>set pre. \<not> P x)"
proof (induction xs)
  case Nil
  then show ?case by simp
next
  case (Cons a xs)
  show ?case
  proof (cases "P a")
    case True
    with Cons.prems have "a = r" by simp
    with True show ?thesis by (intro exI [of _ "[]"] exI [of _ xs]) simp
  next
    case False
    with Cons obtain pre post where "xs = pre @ r # post" "P r" "\<forall>x\<in>set pre. \<not> P x"
      by auto
    with False show ?thesis by (intro exI [of _ "a # pre"] exI [of _ post]) simp
  qed
qed

lemma menu_default_cases:
  assumes "vs \<noteq> []"
  shows "(\<exists>pre r post. vs = pre @ r # post \<and> (\<forall>x\<in>set pre. \<not> isRecommended x) \<and>
            isRecommended r \<and> menu_default vs = Some (rawVersion r)) \<or>
         ((\<forall>x\<in>set vs. \<not> isRecommended x) \<and> menu_default vs = Some (rawVersion (hd vs)))"
proof (cases "find isRecommended vs")
  case None
  then have "\<forall>x\<in>set vs. \<not> isRecommended x" by (simp add: find_None_iff)
  moreover have "menu_default vs = Some (rawVersion (hd vs))"
    using None assms by (cases vs) (simp_all add: menu_default_def)
  ultimately show ?thesis by blast
next
  case (Some r)
  from find_Some_split [OF Some] obtain pre post where
    "vs = pre @ r # post" "isRecommended r" "\<forall>x\<in>set pre. \<not> isRecommended x" by blast
  moreover have "menu_default vs = Some (rawVersion r)"
    using Some by (simp add: menu_default_def)
  ultimately show ?thesis by blast
qed

text \<open>
  C8. When the catalog fetch succeeds with the descriptors \<open>vs\<close>, the menu asks one
  question whose choices follow \<open>vs\<close> in order, the name of each being the
  \<open>formattedVersion\<close> and the value the \<open>rawVersion\<close>; the default is the \<open>rawVersion\<close> of
  the first descriptor flagged \<open>isRecommended\<close>, or of the first descriptor when none is
  flagged. With the catalog \<open>[A (not recommended), B (recommended)]\<close> and a prompt that
  answers with the default, resolving \<open>menu\<close> gives \<open>B\<close>.
\<close>

theorem selectOSVersionFromMenu_choices:
  "(getFormattedOsVersions env deviceType esr = (tr, Inr vs) \<longrightarrow>
      (\<exists>opts. selectOSVersionFromMenu env deviceType esr =
                 (tr @ [Ask opts], cliForm_ask env opts) \<and>
               map choice_name (ask_choices opts) = map formattedVersion vs \<and>
               map choice_value (ask_choices opts) = map rawVersion vs \<and>
               ((\<exists>pre r post. vs = pre @ r # post \<and> (\<forall>x\<in>set pre. \<not> isRecommended x) \<and>
                   isRecommended r \<and> ask_default opts = Some (rawVersion r)) \<or>
                ((\<forall>x\<in>set vs. \<not> isRecommended x) \<and> vs \<noteq> [] \<and>
                 ask_default opts = Some (rawVersion (hd vs)))))) \<and>
   (getAvailableOsVersions env2 [deviceType] = Inr byType \<longrightarrow>
    byType deviceType = Some [a, b] \<longrightarrow>
    osType a = ''default'' \<longrightarrow> osType b = ''default'' \<longrightarrow>
    rawVersion a = ''A'' \<longrightarrow> rawVersion b = ''B'' \<longrightarrow>
    \<not> isRecommended a \<longrightarrow> isRecommended b \<longrightarrow>
    (\<forall>opts d. ask_default opts = Some d \<longrightarrow> cliForm_ask env2 opts = Inr d) \<longrightarrow>
    snd (resolveOSVersion env2 deviceType ''menu'') = Inr ''B'')"
proof (intro conjI impI)
  assume g: "getFormattedOsVersions env deviceType esr = (tr, Inr vs)"
  then have ne: "vs \<noteq> []" by (rule getFormattedOsVersions_nonempty)
  have "selectOSVersionFromMenu env deviceType esr =
          (tr @ [Ask (menu_options vs)], cliForm_ask env (menu_options vs))"
    by (simp add: selectOSVersionFromMenu_def g)
  moreover have "map choice_name (ask_choices (menu_options vs)) = map formattedVersion vs"
    and "map choice_value (ask_choices (menu_options vs)) = map rawVersion vs"
    and "ask_default (menu_options vs) = menu_default vs"
    by (simp_all add: menu_options_def comp_def)
  ultimately show "\<exists>opts. selectOSVersionFromMenu env deviceType esr =
                 (tr @ [Ask opts], cliForm_ask env opts) \<and>
               map choice_name (ask_choices opts) = map formattedVersion vs \<and>
               map choice_value (ask_choices opts) = map rawVersion vs \<and>
               ((\<exists>pre r post. vs = pre @ r # post \<and> (\<forall>x\<in>set pre. \<not> isRecommended x) \<and>
                   isRecommended r \<and> ask_default opts = Some (rawVersion r)) \<or>
                ((\<forall>x\<in>set vs. \<not> isRecommended x) \<and> vs \<noteq> [] \<and>
                 ask_default opts = Some (rawVersion (hd vs))))"
    using menu_default_cases [OF ne] ne
    by (intro exI [of _ "menu_options vs"]) simp
next
  assume q: "getAvailableOsVersions env2 [deviceType] = Inr byType"
    and c: "byType deviceType = Some [a, b]"
    and t: "osType a = ''default''" "osType b = ''default''"
    and r: "rawVersion a = ''A''" "rawVersion b = ''B''"
    and i: "\<not> isRecommended a" "isRecommended b"
    and k: "\<forall>opts d. ask_default opts = Some d \<longrightarrow> cliForm_ask env2 opts = Inr d"
  have "getFormattedOsVersions env2 deviceType False =
          ([GetAvailableOsVersions [deviceType]], Inr (map reformat [a, b]))"
    by (rule getFormattedOsVersions_ok [OF q]) (simp_all add: c t)
  moreover have "menu_default (map reformat [a, b]) = Some ''B''"
    by (simp add: menu_default_def reformat_fields i r)
  then have "ask_default (menu_options (map reformat [a, b])) = Some ''B''"
    by (simp add: menu_options_def)
  with k have "cliForm_ask env2 (menu_options (map reformat [a, b])) = Inr ''B''"
    by blast
  ultimately show "snd (resolveOSVersion env2 deviceType ''menu'') = Inr ''B''"
    by (simp add: resolveOSVersion_def selectOSVersionFromMenu_def)
qed

theorem selectOSVersionFromMenu_choices_witness:
  "getFormattedOsVersions example_env ''raspberrypi3'' False =
     ([GetAvailableOsVersions [''raspberrypi3'']],
      Inr [version_A\<lparr>formattedVersion := ''vA''\<rparr>,
           version_B\<lparr>formattedVersion := ''vB (Kasumi)''\<rparr>]) \<and>
   (\<exists>opts. selectOSVersionFromMenu example_env ''raspberrypi3'' False =
             ([GetAvailableOsVersions [''raspberrypi3'']] @ [Ask opts],
              cliForm_ask example_env opts) \<and>
           map choice_name (ask_choices opts) = [''vA'', ''vB (Kasumi)''] \<and>
           map choice_value (ask_choices opts) = [''A'', ''B''] \<and>
           ask_default opts = Some ''B'') \<and>
   getAvailableOsVersions menu_env [''raspberrypi3''] = Inr menu_catalog \<and>
   menu_catalog ''raspberrypi3'' = Some [version_A, version_B] \<and>
   osType version_A = ''default'' \<and> osType version_B = ''default'' \<and>
   rawVersion version_A = ''A'' \<and> rawVersion version_B = ''B'' \<and>
   \<not> isRecommended version_A \<and> isRecommended version_B \<and>
   snd (resolveOSVersion menu_env ''raspberrypi3'' ''menu'') = Inr ''B''"
proof -
  let ?vs = "[version_A\<lparr>formattedVersion := ''vA''\<rparr>,
              version_B\<lparr>formattedVersion := ''vB (Kasumi)''\<rparr>]"
  have g: "getFormattedOsVersions example_env ''raspberrypi3'' False =
             ([GetAvailableOsVersions [''raspberrypi3'']], Inr ?vs)"
    by (simp add: getFormattedOsVersions_def catalog_lookup_def example_env_def
        example_catalog_def version_A_def version_B_def version_E_def reformat_def
        indexOf_def substring_def)
  have q: "getAvailableOsVersions menu_env [''raspberrypi3''] = Inr menu_catalog"
    by (simp add: menu_env_def)
  have c: "menu_catalog ''raspberrypi3'' = Some [version_A, version_B]"
    by (simp add: menu_catalog_def)
  have f: "osType version_A = ''default''" "osType version_B = ''default''"
    "rawVersion version_A = ''A''" "rawVersion version_B = ''B''"
    "\<not> isRecommended version_A" "isRecommended version_B"
    by (simp_all add: version_A_def version_B_def)
  have k: "\<forall>opts d. ask_default opts = Some d \<longrightarrow> cliForm_ask menu_env opts = Inr d"
    by (simp add: menu_env_def example_env_def)
  note thm1 = selectOSVersionFromMenu_choices
    [of example_env "''raspberrypi3''" False "[GetAvailableOsVersions [''raspberrypi3'']]" ?vs
        menu_env menu_catalog version_A version_B]
  from thm1 g obtain opts where o:
    "selectOSVersionFromMenu example_env ''raspberrypi3'' False =
       ([GetAvailableOsVersions [''raspberrypi3'']] @ [Ask opts], cliForm_ask example_env opts)"
    "map choice_name (ask_choices opts) = map formattedVersion ?vs"
    "map choice_value (ask_choices opts) = map rawVersion ?vs"
    "(\<exists>pre r post. ?vs = pre @ r # post \<and> (\<forall>x\<in>set pre. \<not> isRecommended x) \<and>
         isRecommended r \<and> ask_default opts = Some (rawVersion r)) \<or>
     ((\<forall>x\<in>set ?vs. \<not> isRecommended x) \<and> ?vs \<noteq> [] \<and>
      ask_default opts = Some (rawVersion (hd ?vs)))"
    by blast
  from o(4) have d: "ask_default opts = Some ''B''"
  proof
    assume "\<exists>pre r post. ?vs = pre @ r # post \<and> (\<forall>x\<in>set pre. \<not> isRecommended x) \<and>
         isRecommended r \<and> ask_default opts = Some (rawVersion r)"
    then obtain pre r post where s: "?vs = pre @ r # post" and r: "isRecommended r"
      and a: "ask_default opts = Some (rawVersion r)" by blast
    from s have "r \<in> set ?vs" by (metis in_set_conv_decomp)
    with r have "r = version_B\<lparr>formattedVersion := ''vB (Kasumi)''\<rparr>"
      by (auto simp: version_A_def)
    with a show ?thesis by (simp add: version_B_def)
  next
    assume "(\<forall>x\<in>set ?vs. \<not> isRecommended x) \<and> ?vs \<noteq> [] \<and>
      ask_default opts = Some (rawVersion (hd ?vs))"
    then show ?thesis by (simp add: version_B_def)
  qed
  have n: "map choice_name (ask_choices opts) = [''vA'', ''vB (Kasumi)'']"
    and v: "map choice_value (ask_choices opts) = [''A'', ''B'']"
    using o(2,3) by (simp_all add: version_A_def version_B_def)
  have m: "snd (resolveOSVersion menu_env ''raspberrypi3'' ''menu'') = Inr ''B''"
    using thm1 q c f k by blast
  from o(1) n v d have e:
    "\<exists>opts. selectOSVersionFromMenu example_env ''raspberrypi3'' False =
             ([GetAvailableOsVersions [''raspberrypi3'']] @ [Ask opts],
              cliForm_ask example_env opts) \<and>
           map choice_name (ask_choices opts) = [''vA'', ''vB (Kasumi)''] \<and>
           map choice_value (ask_choices opts) = [''A'', ''B''] \<and>
           ask_default opts = Some ''B''"
    by (intro exI [of _ opts] conjI)
  from g e q c f m show ?thesis
    by (intro conjI)
qed

subsection \<open>The resolver\<close>

lemma resolveOSVersion_not_menu:
  assumes "version \<noteq> ''menu''" and "version \<noteq> ''menu-esr''"
  shows "resolveOSVersion env deviceType version =
           ([], Inr (let version1 = (case version of
                                       c # rest \<Rightarrow> if c = CHR ''v'' then rest else version
                                     | [] \<Rightarrow> version)
                     in if \<not> endsWith version1 ''.dev'' \<and> \<not> endsWith version1 ''.prod''
                        then version1 @ ''.prod'' else version1))"
proof -
  have "\<not> version \<in> set [''menu'', ''menu-esr'']"
    using assms by simp
  then show ?thesis
    unfolding resolveOSVersion_def by (simp only: if_False Let_def)
qed

lemma resolveOSVersion_plain:
  assumes "version \<noteq> ''menu''" and "version \<noteq> ''menu-esr''"
  shows "\<exists>stripped.
           (version = CHR ''v'' # stripped \<or>
            (\<not> (\<exists>r. version = CHR ''v'' # r) \<and> stripped = version)) \<and>
           resolveOSVersion env deviceType version =
             ([], Inr (if (\<exists>p. stripped = p @ ''.dev'') \<or> (\<exists>p. stripped = p @ ''.prod'')
                       then stripped else stripped @ ''.prod''))"
proof (cases "\<exists>r. version = CHR ''v'' # r")
  case True
  then obtain r where r: "version = CHR ''v'' # r" by blast
  have "resolveOSVersion env deviceType version =
          ([], Inr (if endsWith r ''.dev'' \<or> endsWith r ''.prod'' then r else r @ ''.prod''))"
    unfolding resolveOSVersion_not_menu [OF assms] by (simp add: r)
  then show ?thesis
    unfolding endsWith_iff using r by blast
next
  case False
  have "resolveOSVersion env deviceType version =
          ([], Inr (if endsWith version ''.dev'' \<or> endsWith version ''.prod''
                    then version else version @ ''.prod''))"
    unfolding resolveOSVersion_not_menu [OF assms] using False
    by (cases version) simp_all
  then show ?thesis
    unfolding endsWith_iff using False by blast
qed

text \<open>
  C1. For a version token other than \<open>menu\<close> and \<open>menu-esr\<close>, \<open>resolveOSVersion\<close> strips
  one leading \<open>v\<close> if there is one and appends \<open>.prod\<close> unless the stripped string already
  ends in \<open>.dev\<close> or \<open>.prod\<close>. It has no effect on the outside world: the catalog is not
  queried and nothing is asked. So \<open>v2.60.1+rev1\<close> gives \<open>2.60.1+rev1.prod\<close>,
  \<open>2.60.1+rev1.dev\<close> is unchanged and \<open>latest\<close> gives \<open>latest.prod\<close>.
\<close>

theorem resolveOSVersion_suffix_policy:
  "(version \<noteq> ''menu'' \<longrightarrow> version \<noteq> ''menu-esr'' \<longrightarrow>
      (\<exists>stripped.
         (version = CHR ''v'' # stripped \<or>
          (\<not> (\<exists>r. version = CHR ''v'' # r) \<and> stripped = version)) \<and>
         resolveOSVersion env deviceType version =
           ([], Inr (if (\<exists>p. stripped = p @ ''.dev'') \<or> (\<exists>p. stripped = p @ ''.prod'')
                     then stripped else stripped @ ''.prod'')))) \<and>
   resolveOSVersion env deviceType ''v2.60.1+rev1'' = ([], Inr ''2.60.1+rev1.prod'') \<and>
   resolveOSVersion env deviceType ''2.60.1+rev1.dev'' = ([], Inr ''2.60.1+rev1.dev'') \<and>
   resolveOSVersion env deviceType ''latest'' = ([], Inr ''latest.prod'')"
proof (intro conjI impI)
  assume "version \<noteq> ''menu''" and "version \<noteq> ''menu-esr''"
  then show "\<exists>stripped.
         (version = CHR ''v'' # stripped \<or>
          (\<not> (\<exists>r. version = CHR ''v'' # r) \<and> stripped = version)) \<and>
         resolveOSVersion env deviceType version =
           ([], Inr (if (\<exists>p. stripped = p @ ''.dev'') \<or> (\<exists>p. stripped = p @ ''.prod'')
                     then stripped else stripped @ ''.prod''))"
    by (rule resolveOSVersion_plain)
next
  show "resolveOSVersion env deviceType ''v2.60.1+rev1'' = ([], Inr ''2.60.1+rev1.prod'')"
    by (simp add: resolveOSVersion_def endsWith_def)
next
  show "resolveOSVersion env deviceType ''2.60.1+rev1.dev'' = ([], Inr ''2.60.1+rev1.dev'')"
    by (simp add: resolveOSVersion_def endsWith_def)
next
  show "resolveOSVersion env deviceType ''latest'' = ([], Inr ''latest.prod'')"
    by (simp add: resolveOSVersion_def endsWith_def)
qed

theorem resolveOSVersion_suffix_policy_witness:
  "''v2.88.4'' \<noteq> ''menu'' \<and> ''v2.88.4'' \<noteq> ''menu-esr'' \<and>
   (\<exists>stripped.
      (''v2.88.4'' = CHR ''v'' # stripped \<or>
       (\<not> (\<exists>r. ''v2.88.4'' = CHR ''v'' # r) \<and> stripped = ''v2.88.4'')) \<and>
      resolveOSVersion example_env ''raspberrypi3'' ''v2.88.4'' =
        ([], Inr (if (\<exists>p. stripped = p @ ''.dev'') \<or> (\<exists>p. stripped = p @ ''.prod'')
                  then stripped else stripped @ ''.prod''))) \<and>
   resolveOSVersion example_env ''raspberrypi3'' ''v2.88.4'' = ([], Inr ''2.88.4.prod'')"
proof -
  have a: "''v2.88.4'' \<noteq> ''menu''" and b: "''v2.88.4'' \<noteq> ''menu-esr''"
    by simp_all
  have c: "resolveOSVersion example_env ''raspberrypi3'' ''v2.88.4'' = ([], Inr ''2.88.4.prod'')"
    by (simp add: resolveOSVersion_def endsWith_def)
  from resolveOSVersion_suffix_policy [of "''v2.88.4''" example_env "''raspberrypi3''"] a b c
  show ?thesis by blast
qed

subsection \<open>The download\<close>

lemma await_resolved_version:
  "\<forall>x\<in>set pre. \<not> settles_version x \<Longrightarrow>
   await_resolved (pre @ ResolvedVersion v # post) buf = Some (Inr (v, buf @ data_of pre, post))"
proof (induction pre arbitrary: buf)
  case Nil
  then show ?case by simp
next
  case (Cons x pre)
  then show ?case by (cases x) simp_all
qed

lemma await_resolved_error:
  "\<forall>x\<in>set pre. \<not> settles_version x \<Longrightarrow>
   await_resolved (pre @ Error e # post) buf = Some (Inl e)"
proof (induction pre arbitrary: buf)
  case Nil
  then show ?case by simp
next
  case (Cons x pre)
  then show ?case by (cases x) simp_all
qed

lemma await_resolved_pending:
  "\<forall>x\<in>set evs. \<not> settles_version x \<Longrightarrow> await_resolved evs buf = None"
proof (induction evs arbitrary: buf)
  case Nil
  then show ?case by simp
next
  case (Cons x evs)
  then show ?case by (cases x) simp_all
qed

lemma progress_effects_append:
  "progress_effects (a @ b) = progress_effects a @ progress_effects b"
  by (induction a rule: progress_effects.induct) simp_all

lemma piped_append: "piped (a @ b) = piped a @ piped b"
  by (induction a rule: piped.induct) simp_all

lemma stages_append: "stages (a @ b) = stages a @ stages b"
  by (induction a rule: stages.induct) simp_all

lemma requests_append: "requests (a @ b) = requests a @ requests b"
  by (induction a rule: requests.induct) simp_all

lemma drain_progress:
  "\<exists>k. progress_effects (fst (drain out ended evs)) = progress_events (take k evs)"
proof (induction out ended evs rule: drain.induct)
  case (1 out ended)
  then show ?case by simp
next
  case (2 out ended st rest)
  then obtain k where "progress_effects (fst (drain out ended rest)) = progress_events (take k rest)"
    by blast
  then show ?case
    by (intro exI [of _ "Suc k"]) (simp add: case_prod_beta)
next
  case (3 out ended rest)
  then obtain k where "progress_effects (fst (drain out ended rest)) = progress_events (take k rest)"
    by blast
  then show ?case
    by (intro exI [of _ "Suc k"]) (simp add: case_prod_beta)
next
  case (4 out ended c rest)
  then obtain k where "progress_effects (fst (drain out ended rest)) = progress_events (take k rest)"
    by (cases ended) auto
  then show ?case
    by (intro exI [of _ "Suc k"]) (auto simp: case_prod_beta)
next
  case (5 out ended rest)
  then obtain k where "progress_effects (fst (drain out True rest)) = progress_events (take k rest)"
    by (cases ended) auto
  then show ?case
    by (intro exI [of _ "Suc k"]) (auto simp: case_prod_beta)
next
  case (6 out ended e rest)
  then obtain k where "progress_effects (fst (drain out ended rest)) = progress_events (take k rest)"
    by blast
  then show ?case
    by (intro exI [of _ "Suc k"]) simp
next
  case (7 out ended v rest)
  then obtain k where "progress_effects (fst (drain out ended rest)) = progress_events (take k rest)"
    by blast
  then show ?case
    by (intro exI [of _ "Suc k"]) simp
next
  case (8 out ended rest)
  show ?case by (intro exI [of _ 0]) simp
next
  case (9 out ended e rest)
  show ?case by (intro exI [of _ 0]) simp
qed

lemma drain_requests: "requests (fst (drain out ended evs)) = []"
  by (induction out ended evs rule: drain.induct) (simp_all add: case_prod_beta)

lemma drain_stages: "set (stages (fst (drain out ended evs))) \<subseteq> {out}"
  by (induction out ended evs rule: drain.induct) (auto simp: case_prod_beta)

lemma drain_complete:
  "\<forall>x\<in>set body. progress_or_data x \<Longrightarrow>
   snd (drain out False (body @ [End, OutputFinish])) = Some (Inr ()) \<and>
   piped (fst (drain out False (body @ [End, OutputFinish]))) = data_of body"
proof (induction body)
  case Nil
  then show ?case by simp
next
  case (Cons x body)
  then show ?case
  proof (cases x)
    case (Progress st)
    with Cons show ?thesis by (cases st) (simp_all add: case_prod_beta)
  next
    case (Data c)
    with Cons show ?thesis by (simp add: case_prod_beta)
  qed simp_all
qed

lemma resolveOSVersion_trace:
  "x \<in> set (fst (resolveOSVersion env deviceType version)) \<Longrightarrow>
   (\<exists>ts. x = GetAvailableOsVersions ts) \<or> (\<exists>opts. x = Ask opts)"
  unfolding resolveOSVersion_def selectOSVersionFromMenu_def getFormattedOsVersions_def
  by (auto simp: Let_def split: if_splits sum.splits prod.splits)

lemma requested_version_trace:
  "x \<in> set (fst (requested_version env deviceType tok)) \<Longrightarrow>
   (\<exists>ts. x = GetAvailableOsVersions ts) \<or> (\<exists>opts. x = Ask opts) \<or> (\<exists>m. x = ConsoleWarn m)"
  unfolding requested_version_def
  by (auto split: option.splits if_splits dest: resolveOSVersion_trace)

lemma plain_trace:
  assumes "\<forall>x\<in>set tr. (\<exists>ts. x = GetAvailableOsVersions ts) \<or> (\<exists>opts. x = Ask opts) \<or>
             (\<exists>m. x = ConsoleWarn m) \<or> (\<exists>m. x = ConsoleInfo m) \<or> (\<exists>k v. x = SetEnv k v)"
  shows "requests tr = [] \<and> stages tr = [] \<and> piped tr = [] \<and> progress_effects tr = [] \<and>
         (\<forall>x\<in>set tr. \<not> is_renderer x)"
  using assms by (induction tr) auto

lemma consume_stream_unresolved:
  "await_resolved (schedule stream) [] = None \<Longrightarrow>
   consume_stream outputPath stream = ([], NeverSettles)"
  "await_resolved (schedule stream) [] = Some (Inl e) \<Longrightarrow>
   consume_stream outputPath stream = ([], Threw e)"
  by (simp_all add: consume_stream_def)

lemma consume_stream_resolved:
  assumes "await_resolved (schedule stream) [] = Some (Inr (v, buf, rest))"
    and "out = select_output (mime stream) outputPath"
  shows "fst (consume_stream outputPath stream) =
           [ResolvedVersionObserved v,
            NewProgress (''Downloading balenaOS version '' @ v),
            NewSpinner (''Downloading balenaOS version '' @ v @ '' (size unknown)''),
            OpenOutput out]
           @ (if buf = [] then [] else [PipeChunk out buf])
           @ fst (drain out False rest)
           @ (if snd (drain out False rest) = Some (Inr ())
              then [ConsoleInfo (''balenaOS image version '' @ v @ '' downloaded successfully'')]
              else [])"
    and "snd (consume_stream outputPath stream) =
           (case snd (drain out False rest) of
              None \<Rightarrow> NeverSettles
            | Some (Inl e) \<Rightarrow> Threw e
            | Some (Inr u) \<Rightarrow> Returned outputPath)"
proof -
  obtain tr r where d: "drain out False rest = (tr, r)"
    by (cases "drain out False rest")
  show "fst (consume_stream outputPath stream) =
           [ResolvedVersionObserved v,
            NewProgress (''Downloading balenaOS version '' @ v),
            NewSpinner (''Downloading balenaOS version '' @ v @ '' (size unknown)''),
            OpenOutput out]
           @ (if buf = [] then [] else [PipeChunk out buf])
           @ fst (drain out False rest)
           @ (if snd (drain out False rest) = Some (Inr ())
              then [ConsoleInfo (''balenaOS image version '' @ v @ '' downloaded successfully'')]
              else [])"
    using assms d unfolding consume_stream_def
    by (cases r) (auto simp: Let_def split: sum.splits)
  show "snd (consume_stream outputPath stream) =
           (case snd (drain out False rest) of
              None \<Rightarrow> NeverSettles
            | Some (Inl e) \<Rightarrow> Threw e
            | Some (Inr u) \<Rightarrow> Returned outputPath)"
    using assms d unfolding consume_stream_def
    by (cases r) (auto simp: Let_def split: sum.splits)
qed

lemma consume_stream_shape:
  "fst (consume_stream outputPath stream) = [] \<or>
   (\<exists>v rest. fst (consume_stream outputPath stream) = ResolvedVersionObserved v # rest)"
proof (cases "await_resolved (schedule stream) []")
  case None
  then show ?thesis by (simp add: consume_stream_unresolved)
next
  case (Some a)
  show ?thesis
  proof (cases a)
    case (Inl e)
    with Some show ?thesis by (simp add: consume_stream_unresolved)
  next
    case (Inr t)
    obtain v buf rest where "t = (v, buf, rest)" by (cases t)
    with Some Inr show ?thesis
      by (simp add: consume_stream_resolved [OF _ refl])
  qed
qed

lemma consume_stream_requests: "requests (fst (consume_stream outputPath stream)) = []"
proof (cases "await_resolved (schedule stream) []")
  case None
  then show ?thesis by (simp add: consume_stream_unresolved)
next
  case (Some a)
  show ?thesis
  proof (cases a)
    case (Inl e)
    with Some show ?thesis by (simp add: consume_stream_unresolved)
  next
    case (Inr t)
    obtain v buf rest where "t = (v, buf, rest)" by (cases t)
    with Some Inr show ?thesis
      by (simp add: consume_stream_resolved [OF _ refl] requests_append drain_requests)
  qed
qed

lemma consume_stream_stages:
  "set (stages (fst (consume_stream outputPath stream)))
     \<subseteq> {select_output (mime stream) outputPath}"
proof (cases "await_resolved (schedule stream) []")
  case None
  then show ?thesis by (simp add: consume_stream_unresolved)
next
  case (Some a)
  show ?thesis
  proof (cases a)
    case (Inl e)
    with Some show ?thesis by (simp add: consume_stream_unresolved)
  next
    case (Inr t)
    obtain v buf rest where "t = (v, buf, rest)" by (cases t)
    with Some Inr show ?thesis
      using drain_stages [of "select_output (mime stream) outputPath" False rest]
      by (simp add: consume_stream_resolved [OF _ refl] stages_append)
  qed
qed

lemma downloadOSImage_split:
  assumes "requested_version env deviceType tok = (tr1, Inr version)"
    and "manager_get env deviceType version = Inr stream"
  shows "fst (downloadOSImage env deviceType outputPath tok) =
           [ConsoleInfo (''Getting device operating system for '' @ deviceType)] @ tr1 @
           [SetEnv ''ZLIB_FLUSH'' ''Z_NO_FLUSH'', ManagerGet deviceType version] @
           fst (consume_stream outputPath stream)"
    and "snd (downloadOSImage env deviceType outputPath tok) =
           snd (consume_stream outputPath stream)"
  using assms unfolding downloadOSImage_def
  by (simp_all add: Let_def case_prod_beta)

lemma downloadOSImage_prefix:
  "\<exists>pre suf. fst (downloadOSImage env deviceType outputPath tok) = pre @ suf \<and>
     (\<forall>x\<in>set pre. \<not> is_renderer x) \<and>
     (suf = [] \<or> (\<exists>v rest. suf = ResolvedVersionObserved v # rest))"
proof -
  obtain tr1 r where rv: "requested_version env deviceType tok = (tr1, r)"
    by (cases "requested_version env deviceType tok")
  have t1: "\<forall>x\<in>set tr1. \<not> is_renderer x"
    using requested_version_trace [of _ env deviceType tok] rv by fastforce
  show ?thesis
  proof (cases r)
    case (Inl e)
    with rv have "fst (downloadOSImage env deviceType outputPath tok) =
        ([ConsoleInfo (''Getting device operating system for '' @ deviceType)] @ tr1) @ []"
      by (simp add: downloadOSImage_def)
    moreover have "\<forall>x\<in>set ([ConsoleInfo (''Getting device operating system for '' @ deviceType)] @ tr1). \<not> is_renderer x"
      using t1 by auto
    ultimately show ?thesis by blast
  next
    case (Inr version)
    show ?thesis
    proof (cases "manager_get env deviceType version")
      case (Inl e)
      with rv Inr have "fst (downloadOSImage env deviceType outputPath tok) =
        ([ConsoleInfo (''Getting device operating system for '' @ deviceType)] @ tr1 @
         [SetEnv ''ZLIB_FLUSH'' ''Z_NO_FLUSH'', ManagerGet deviceType version]) @ []"
        by (simp add: downloadOSImage_def)
      moreover have "\<forall>x\<in>set ([ConsoleInfo (''Getting device operating system for '' @ deviceType)] @ tr1 @
         [SetEnv ''ZLIB_FLUSH'' ''Z_NO_FLUSH'', ManagerGet deviceType version]). \<not> is_renderer x"
        using t1 by auto
      ultimately show ?thesis by blast
    next
      case (Inr stream)
      with rv \<open>r = Inr version\<close> have "fst (downloadOSImage env deviceType outputPath tok) =
        ([ConsoleInfo (''Getting device operating system for '' @ deviceType)] @ tr1 @
         [SetEnv ''ZLIB_FLUSH'' ''Z_NO_FLUSH'', ManagerGet deviceType version]) @
        fst (consume_stream outputPath stream)"
        by (simp add: downloadOSImage_split)
      moreover have "\<forall>x\<in>set ([ConsoleInfo (''Getting device operating system for '' @ deviceType)] @ tr1 @
         [SetEnv ''ZLIB_FLUSH'' ''Z_NO_FLUSH'', ManagerGet deviceType version]). \<not> is_renderer x"
        using t1 by auto
      ultimately show ?thesis using consume_stream_shape [of outputPath stream] by blast
    qed
  qed
qed

lemma requested_version_plain:
  assumes "requested_version env deviceType tok = (tr1, r)"
  shows "requests tr1 = [] \<and> stages tr1 = [] \<and> piped tr1 = [] \<and> progress_effects tr1 = [] \<and>
         (\<forall>x\<in>set tr1. \<not> is_renderer x)"
proof (rule plain_trace)
  show "\<forall>x\<in>set tr1. (\<exists>ts. x = GetAvailableOsVersions ts) \<or> (\<exists>opts. x = Ask opts) \<or>
             (\<exists>m. x = ConsoleWarn m) \<or> (\<exists>m. x = ConsoleInfo m) \<or> (\<exists>k v. x = SetEnv k v)"
    using requested_version_trace [of _ env deviceType tok] assms by fastforce
qed

text \<open>
  C4 (as amended). When \<open>downloadOSImage\<close> is called without a version token, or with the
  empty string, it warns that no version was specified and asks the image store for the
  literal \<open>default\<close>. \<open>resolveOSVersion\<close> is not applied to it: that would give
  \<open>default.prod\<close>.
\<close>

theorem downloadOSImage_default_token:
  assumes "tok = None \<or> tok = Some []"
  shows "requested_version env deviceType tok =
           ([ConsoleWarn ''OS version not specified: using latest released version''],
            Inr ''default'') \<and>
         ConsoleWarn ''OS version not specified: using latest released version''
           \<in> set (fst (downloadOSImage env deviceType outputPath tok)) \<and>
         requests (fst (downloadOSImage env deviceType outputPath tok))
           = [(deviceType, ''default'')] \<and>
         resolveOSVersion env deviceType ''default'' = ([], Inr ''default.prod'')"
proof -
  have rv: "requested_version env deviceType tok =
           ([ConsoleWarn ''OS version not specified: using latest released version''],
            Inr ''default'')"
    using assms by (auto simp: requested_version_def)
  have tr: "\<exists>suf. fst (downloadOSImage env deviceType outputPath tok) =
              [ConsoleInfo (''Getting device operating system for '' @ deviceType),
               ConsoleWarn ''OS version not specified: using latest released version'',
               SetEnv ''ZLIB_FLUSH'' ''Z_NO_FLUSH'', ManagerGet deviceType ''default''] @ suf \<and>
              requests suf = []"
  proof (cases "manager_get env deviceType ''default''")
    case (Inl e)
    then show ?thesis by (simp add: downloadOSImage_def rv)
  next
    case (Inr stream)
    show ?thesis
      by (simp add: downloadOSImage_split [OF rv Inr] consume_stream_requests)
  qed
  then obtain suf where s: "fst (downloadOSImage env deviceType outputPath tok) =
              [ConsoleInfo (''Getting device operating system for '' @ deviceType),
               ConsoleWarn ''OS version not specified: using latest released version'',
               SetEnv ''ZLIB_FLUSH'' ''Z_NO_FLUSH'', ManagerGet deviceType ''default''] @ suf"
    and r: "requests suf = []" by blast
  have "requests (fst (downloadOSImage env deviceType outputPath tok)) = [(deviceType, ''default'')]"
    unfolding s requests_append using r by simp
  moreover have "ConsoleWarn ''OS version not specified: using latest released version''
           \<in> set (fst (downloadOSImage env deviceType outputPath tok))"
    unfolding s by simp
  moreover have "resolveOSVersion env deviceType ''default'' = ([], Inr ''default.prod'')"
    by (simp add: resolveOSVersion_def endsWith_def)
  ultimately show ?thesis using rv by blast
qed

theorem downloadOSImage_default_token_witness:
  "((None :: string option) = None \<or> None = Some []) \<and>
   requested_version example_env ''raspberrypi3'' None =
     ([ConsoleWarn ''OS version not specified: using latest released version''],
      Inr ''default'') \<and>
   ConsoleWarn ''OS version not specified: using latest released version''
     \<in> set (fst (downloadOSImage example_env ''raspberrypi3'' ''out.img'' None)) \<and>
   requests (fst (downloadOSImage example_env ''raspberrypi3'' ''out.img'' None))
     = [(''raspberrypi3'', ''default'')] \<and>
   resolveOSVersion example_env ''raspberrypi3'' ''default'' = ([], Inr ''default.prod'')"
proof -
  have h: "(None :: string option) = None \<or> None = Some []"
    by simp
  from downloadOSImage_default_token [OF h, of example_env "''raspberrypi3''" "''out.img''"] h
  show ?thesis by (intro conjI) simp_all
qed

text \<open>
  The version requested from the image store is not what \<open>resolveOSVersion\<close> makes of
  \<open>default\<close>.
\<close>

theorem downloadOSImage_default_token_counterexample:
  "requests (fst (downloadOSImage example_env ''raspberrypi3'' ''out.img'' None))
     = [(''raspberrypi3'', ''default'')] \<and>
   snd (resolveOSVersion example_env ''raspberrypi3'' ''default'') = Inr ''default.prod'' \<and>
   (''raspberrypi3'', ''default.prod'')
     \<notin> set (requests (fst (downloadOSImage example_env ''raspberrypi3'' ''out.img'' None)))"
proof -
  have "downloadOSImage example_env ''raspberrypi3'' ''out.img'' None =
          ([ConsoleInfo ''Getting device operating system for raspberrypi3'',
            ConsoleWarn ''OS version not specified: using latest released version'',
            SetEnv ''ZLIB_FLUSH'' ''Z_NO_FLUSH'',
            ManagerGet ''raspberrypi3'' ''default'',
            ResolvedVersionObserved ''2.88.4'',
            NewProgress ''Downloading balenaOS version 2.88.4'',
            NewSpinner ''Downloading balenaOS version 2.88.4 (size unknown)'',
            OpenOutput (UnzipExtract ''out.img''), SpinnerStart,
            PipeChunk (UnzipExtract ''out.img'') ''PK'', BarUpdate 50,
            PipeChunk (UnzipExtract ''out.img'') ''zz'', SpinnerStop,
            EndOutput (UnzipExtract ''out.img''),
            ConsoleInfo ''balenaOS image version 2.88.4 downloaded successfully''],
           Returned ''out.img'')"
    by (simp add: downloadOSImage_def requested_version_def example_env_def consume_stream_def
        zip_stream_def select_output_def Let_def)
  moreover have "resolveOSVersion example_env ''raspberrypi3'' ''default'' =
                   ([], Inr ''default.prod'')"
    by (simp add: resolveOSVersion_def endsWith_def)
  ultimately show ?thesis by simp
qed

text \<open>
  C5. The output stage depends on the \<open>mime\<close> property of the stream and on nothing
  else: every stage a run opens, writes to or ends is the unzip extractor at \<open>outputPath\<close>
  when \<open>mime\<close> is \<open>application/zip\<close> and the write stream at \<open>outputPath\<close> for any other
  value, whatever the chunks are. For a stream that announces its version, delivers chunks
  and progress, ends and is flushed, the run returns \<open>outputPath\<close> and the bytes written
  into the stage are the chunks of the stream, in order and unchanged.
\<close>

theorem downloadOSImage_output_by_mime:
  assumes rv: "requested_version env deviceType tok = (tr1, Inr version)"
    and mg: "manager_get env deviceType version = Inr stream"
  shows "set (stages (fst (downloadOSImage env deviceType outputPath tok)))
           \<subseteq> {if mime stream = Some ''application/zip''
               then UnzipExtract outputPath else WriteStream outputPath} \<and>
         (schedule stream = ResolvedVersion v # body @ [End, OutputFinish] \<longrightarrow>
          (\<forall>x\<in>set body. progress_or_data x) \<longrightarrow>
            snd (downloadOSImage env deviceType outputPath tok) = Returned outputPath \<and>
            OpenOutput (if mime stream = Some ''application/zip''
                        then UnzipExtract outputPath else WriteStream outputPath)
              \<in> set (fst (downloadOSImage env deviceType outputPath tok)) \<and>
            piped (fst (downloadOSImage env deviceType outputPath tok)) = data_of body)"
proof (intro conjI impI)
  show "set (stages (fst (downloadOSImage env deviceType outputPath tok)))
           \<subseteq> {if mime stream = Some ''application/zip''
               then UnzipExtract outputPath else WriteStream outputPath}"
    using requested_version_plain [OF rv] consume_stream_stages [of outputPath stream]
    by (simp add: downloadOSImage_split [OF rv mg] stages_append select_output_def)
next
  assume sch: "schedule stream = ResolvedVersion v # body @ [End, OutputFinish]"
    and body: "\<forall>x\<in>set body. progress_or_data x"
  let ?out = "select_output (mime stream) outputPath"
  have aw: "await_resolved (schedule stream) [] = Some (Inr (v, [], body @ [End, OutputFinish]))"
    unfolding sch by simp
  note dc = drain_complete [OF body, of ?out]
  show "snd (downloadOSImage env deviceType outputPath tok) = Returned outputPath"
    using dc by (simp add: downloadOSImage_split [OF rv mg] consume_stream_resolved [OF aw refl])
  show "OpenOutput (if mime stream = Some ''application/zip''
                        then UnzipExtract outputPath else WriteStream outputPath)
              \<in> set (fst (downloadOSImage env deviceType outputPath tok))"
    by (simp add: downloadOSImage_split [OF rv mg] consume_stream_resolved [OF aw refl]
        select_output_def)
  show "piped (fst (downloadOSImage env deviceType outputPath tok)) = data_of body"
    using dc requested_version_plain [OF rv]
    by (simp add: downloadOSImage_split [OF rv mg] consume_stream_resolved [OF aw refl]
        piped_append)
qed

theorem downloadOSImage_output_by_mime_witness:
  "requested_version raw_env ''raspberrypi3'' (Some ''v2.88.4'') = ([], Inr ''2.88.4.prod'') \<and>
   manager_get raw_env ''raspberrypi3'' ''2.88.4.prod'' = Inr raw_stream \<and>
   schedule raw_stream =
     ResolvedVersion ''2.88.4'' # [Data ''ab'', Progress (Some 50), Data ''cd'']
       @ [End, OutputFinish] \<and>
   list_all progress_or_data [Data ''ab'', Progress (Some 50), Data ''cd''] \<and>
   set (stages (fst (downloadOSImage raw_env ''raspberrypi3'' ''out.img'' (Some ''v2.88.4''))))
     \<subseteq> {WriteStream ''out.img''} \<and>
   snd (downloadOSImage raw_env ''raspberrypi3'' ''out.img'' (Some ''v2.88.4''))
     = Returned ''out.img'' \<and>
   OpenOutput (WriteStream ''out.img'')
     \<in> set (fst (downloadOSImage raw_env ''raspberrypi3'' ''out.img'' (Some ''v2.88.4''))) \<and>
   piped (fst (downloadOSImage raw_env ''raspberrypi3'' ''out.img'' (Some ''v2.88.4'')))
     = ''abcd''"
proof -
  have rv: "requested_version raw_env ''raspberrypi3'' (Some ''v2.88.4'')
              = ([], Inr ''2.88.4.prod'')"
    by (simp add: requested_version_def resolveOSVersion_def endsWith_def)
  have mg: "manager_get raw_env ''raspberrypi3'' ''2.88.4.prod'' = Inr raw_stream"
    by (simp add: raw_env_def)
  have sch: "schedule raw_stream =
     ResolvedVersion ''2.88.4'' # [Data ''ab'', Progress (Some 50), Data ''cd'']
       @ [End, OutputFinish]"
    by (simp add: raw_stream_def)
  have body: "\<forall>x\<in>set [Data ''ab'', Progress (Some 50), Data ''cd'']. progress_or_data x"
    by simp
  have m: "mime raw_stream \<noteq> Some ''application/zip''"
    by (simp add: raw_stream_def)
  have d: "data_of [Data ''ab'', Progress (Some 50), Data ''cd''] = ''abcd''"
    by simp
  from downloadOSImage_output_by_mime [OF rv mg, of "''out.img''" "''2.88.4''"
      "[Data ''ab'', Progress (Some 50), Data ''cd'']"] sch body
  have "set (stages (fst (downloadOSImage raw_env ''raspberrypi3'' ''out.img'' (Some ''v2.88.4''))))
     \<subseteq> {WriteStream ''out.img''}"
    and "snd (downloadOSImage raw_env ''raspberrypi3'' ''out.img'' (Some ''v2.88.4''))
     = Returned ''out.img''"
    and "OpenOutput (WriteStream ''out.img'')
     \<in> set (fst (downloadOSImage raw_env ''raspberrypi3'' ''out.img'' (Some ''v2.88.4'')))"
    and "piped (fst (downloadOSImage raw_env ''raspberrypi3'' ''out.img'' (Some ''v2.88.4'')))
     = ''abcd''"
    unfolding d [symmetric] using m by simp_all
  moreover have "list_all progress_or_data [Data ''ab'', Progress (Some 50), Data ''cd'']"
    by simp
  ultimately show ?thesis
    using rv mg sch by (intro conjI)
qed

text \<open>
  C6. In every run, an effect on the progress bar or the spinner comes strictly after the
  point where \<open>resolved-version\<close> was observed; the progress events that are rendered are
  among those that follow the first \<open>resolved-version\<close> in the schedule. When the stream
  emits \<open>error\<close> before \<open>resolved-version\<close>, the run fails with that error and the trace
  has no effect on the bar or the spinner.
\<close>

theorem downloadOSImage_resolved_before_progress:
  "(\<forall>i<length (fst (downloadOSImage env deviceType outputPath tok)).
      is_renderer (fst (downloadOSImage env deviceType outputPath tok) ! i) \<longrightarrow>
      (\<exists>j<i. \<exists>v. fst (downloadOSImage env deviceType outputPath tok) ! j
                    = ResolvedVersionObserved v)) \<and>
   (requested_version env deviceType tok = (tr1, Inr version) \<longrightarrow>
    manager_get env deviceType version = Inr stream \<longrightarrow>
    (\<forall>x\<in>set pre. \<not> settles_version x) \<longrightarrow>
      (schedule stream = pre @ ResolvedVersion v # post \<longrightarrow>
         (\<exists>k. progress_effects (fst (downloadOSImage env deviceType outputPath tok))
                = progress_events (take k post))) \<and>
      (schedule stream = pre @ Error e # post \<longrightarrow>
         snd (downloadOSImage env deviceType outputPath tok) = Threw e \<and>
         (\<forall>x\<in>set (fst (downloadOSImage env deviceType outputPath tok)). \<not> is_renderer x)))"
proof (intro conjI impI allI)
  fix i
  let ?tr = "fst (downloadOSImage env deviceType outputPath tok)"
  assume i: "i < length ?tr" and ren: "is_renderer (?tr ! i)"
  from downloadOSImage_prefix [of env deviceType outputPath tok]
  obtain p suf where tr: "?tr = p @ suf" and p: "\<forall>x\<in>set p. \<not> is_renderer x"
    and suf: "suf = [] \<or> (\<exists>v rest. suf = ResolvedVersionObserved v # rest)"
    by blast
  have ge: "length p \<le> i"
  proof (rule ccontr)
    assume "\<not> length p \<le> i"
    then have "i < length p" by simp
    then have "?tr ! i \<in> set p" using tr by (simp add: nth_append)
    with p ren show False by blast
  qed
  with i tr have "suf \<noteq> []" by auto
  with suf obtain v rest where s: "suf = ResolvedVersionObserved v # rest" by blast
  have at: "?tr ! length p = ResolvedVersionObserved v"
    using tr s by (simp add: nth_append)
  with ren have "i \<noteq> length p" by auto
  with ge have "length p < i" by simp
  with at show "\<exists>j<i. \<exists>v. ?tr ! j = ResolvedVersionObserved v" by blast
next
  let ?tr = "fst (downloadOSImage env deviceType outputPath tok)"
  assume rv: "requested_version env deviceType tok = (tr1, Inr version)"
    and mg: "manager_get env deviceType version = Inr stream"
    and pre: "\<forall>x\<in>set pre. \<not> settles_version x"
    and sch: "schedule stream = pre @ ResolvedVersion v # post"
  have aw: "await_resolved (schedule stream) [] = Some (Inr (v, [] @ data_of pre, post))"
    unfolding sch by (rule await_resolved_version [OF pre])
  obtain k where k: "progress_effects (fst (drain (select_output (mime stream) outputPath) False post))
                       = progress_events (take k post)"
    using drain_progress by blast
  have "progress_effects ?tr = progress_events (take k post)"
    using requested_version_plain [OF rv] k
    by (simp add: downloadOSImage_split [OF rv mg] consume_stream_resolved [OF aw refl]
        progress_effects_append)
  then show "\<exists>k. progress_effects ?tr = progress_events (take k post)" ..
next
  assume rv: "requested_version env deviceType tok = (tr1, Inr version)"
    and mg: "manager_get env deviceType version = Inr stream"
    and pre: "\<forall>x\<in>set pre. \<not> settles_version x"
    and sch: "schedule stream = pre @ Error e # post"
  have aw: "await_resolved (schedule stream) [] = Some (Inl e)"
    unfolding sch by (rule await_resolved_error [OF pre])
  show "snd (downloadOSImage env deviceType outputPath tok) = Threw e"
    by (simp add: downloadOSImage_split [OF rv mg] consume_stream_unresolved(2) [OF aw])
next
  assume rv: "requested_version env deviceType tok = (tr1, Inr version)"
    and mg: "manager_get env deviceType version = Inr stream"
    and pre: "\<forall>x\<in>set pre. \<not> settles_version x"
    and sch: "schedule stream = pre @ Error e # post"
  have aw: "await_resolved (schedule stream) [] = Some (Inl e)"
    unfolding sch by (rule await_resolved_error [OF pre])
  show "\<forall>x\<in>set (fst (downloadOSImage env deviceType outputPath tok)). \<not> is_renderer x"
    using requested_version_plain [OF rv]
    by (auto simp: downloadOSImage_split [OF rv mg] consume_stream_unresolved(2) [OF aw])
qed

theorem downloadOSImage_resolved_before_progress_witness:
  "requested_version refused_env ''raspberrypi3'' (Some ''2.88.4'') = ([], Inr ''2.88.4.prod'') \<and>
   manager_get refused_env ''raspberrypi3'' ''2.88.4.prod'' = Inr refused_stream \<and>
   list_all (\<lambda>x. \<not> settles_version x) [Progress None] \<and>
   schedule refused_stream =
     [Progress None] @ Error (OtherError ''ECONNREFUSED'')
       # [ResolvedVersion ''2.88.4'', Progress (Some 10)] \<and>
   snd (downloadOSImage refused_env ''raspberrypi3'' ''out.img'' (Some ''2.88.4''))
     = Threw (OtherError ''ECONNREFUSED'') \<and>
   filter is_renderer
     (fst (downloadOSImage refused_env ''raspberrypi3'' ''out.img'' (Some ''2.88.4''))) = [] \<and>
   requested_version example_env ''raspberrypi3'' (Some ''2.88.4'') = ([], Inr ''2.88.4.prod'') \<and>
   manager_get example_env ''raspberrypi3'' ''2.88.4.prod'' = Inr zip_stream \<and>
   schedule zip_stream =
     [] @ ResolvedVersion ''2.88.4''
       # [Progress None, Data ''PK'', Progress (Some 50), Data ''zz'', End, OutputFinish] \<and>
   (\<exists>k. progress_effects
          (fst (downloadOSImage example_env ''raspberrypi3'' ''out.img'' (Some ''2.88.4'')))
        = progress_events
            (take k [Progress None, Data ''PK'', Progress (Some 50), Data ''zz'', End,
                     OutputFinish])) \<and>
   is_renderer
     (fst (downloadOSImage example_env ''raspberrypi3'' ''out.img'' (Some ''2.88.4'')) ! 4) \<and>
   (\<exists>j<4. \<exists>v. fst (downloadOSImage example_env ''raspberrypi3'' ''out.img''
                       (Some ''2.88.4'')) ! j = ResolvedVersionObserved v)"
proof -
  have rv1: "requested_version refused_env ''raspberrypi3'' (Some ''2.88.4'')
               = ([], Inr ''2.88.4.prod'')"
    by (simp add: requested_version_def resolveOSVersion_def endsWith_def)
  have mg1: "manager_get refused_env ''raspberrypi3'' ''2.88.4.prod'' = Inr refused_stream"
    by (simp add: refused_env_def)
  have pre1: "\<forall>x\<in>set [Progress None]. \<not> settles_version x"
    by simp
  have pre1': "list_all (\<lambda>x. \<not> settles_version x) [Progress None]"
    by simp
  have sch1: "schedule refused_stream =
     [Progress None] @ Error (OtherError ''ECONNREFUSED'')
       # [ResolvedVersion ''2.88.4'', Progress (Some 10)]"
    by (simp add: refused_stream_def)
  have rv2: "requested_version example_env ''raspberrypi3'' (Some ''2.88.4'')
               = ([], Inr ''2.88.4.prod'')"
    by (simp add: requested_version_def resolveOSVersion_def endsWith_def)
  have mg2: "manager_get example_env ''raspberrypi3'' ''2.88.4.prod'' = Inr zip_stream"
    by (simp add: example_env_def)
  have pre2: "\<forall>x\<in>set []. \<not> settles_version x"
    by simp
  have sch2: "schedule zip_stream =
     [] @ ResolvedVersion ''2.88.4''
       # [Progress None, Data ''PK'', Progress (Some 50), Data ''zz'', End, OutputFinish]"
    by (simp add: zip_stream_def)
  let ?tr = "fst (downloadOSImage example_env ''raspberrypi3'' ''out.img'' (Some ''2.88.4''))"
  have tr: "?tr =
          [ConsoleInfo ''Getting device operating system for raspberrypi3'',
           SetEnv ''ZLIB_FLUSH'' ''Z_NO_FLUSH'',
           ManagerGet ''raspberrypi3'' ''2.88.4.prod'',
           ResolvedVersionObserved ''2.88.4'',
           NewProgress ''Downloading balenaOS version 2.88.4'',
           NewSpinner ''Downloading balenaOS version 2.88.4 (size unknown)'',
           OpenOutput (UnzipExtract ''out.img''), SpinnerStart,
           PipeChunk (UnzipExtract ''out.img'') ''PK'', BarUpdate 50,
           PipeChunk (UnzipExtract ''out.img'') ''zz'', SpinnerStop,
           EndOutput (UnzipExtract ''out.img''),
           ConsoleInfo ''balenaOS image version 2.88.4 downloaded successfully'']"
    by (simp add: downloadOSImage_def rv2 mg2 consume_stream_def zip_stream_def
        select_output_def Let_def)
  note t1 = downloadOSImage_resolved_before_progress
    [of refused_env "''raspberrypi3''" "''out.img''" "Some ''2.88.4''" "[]" "''2.88.4.prod''"
        refused_stream "[Progress None]" "''2.88.4''"
        "[ResolvedVersion ''2.88.4'', Progress (Some 10)]" "OtherError ''ECONNREFUSED''"]
  note t2 = downloadOSImage_resolved_before_progress
    [of example_env "''raspberrypi3''" "''out.img''" "Some ''2.88.4''" "[]" "''2.88.4.prod''"
        zip_stream "[]" "''2.88.4''"
        "[Progress None, Data ''PK'', Progress (Some 50), Data ''zz'', End, OutputFinish]"
        "OtherError ''x''"]
  from t1 rv1 mg1 pre1 sch1
  have c1: "snd (downloadOSImage refused_env ''raspberrypi3'' ''out.img'' (Some ''2.88.4''))
     = Threw (OtherError ''ECONNREFUSED'')"
    and c2: "\<forall>x\<in>set (fst (downloadOSImage refused_env ''raspberrypi3'' ''out.img''
                               (Some ''2.88.4''))). \<not> is_renderer x"
    by blast+
  from c2 have c2': "filter is_renderer
     (fst (downloadOSImage refused_env ''raspberrypi3'' ''out.img'' (Some ''2.88.4''))) = []"
    by (simp add: filter_empty_conv)
  from t2 rv2 mg2 pre2 sch2
  have c3: "\<exists>k. progress_effects ?tr
        = progress_events
            (take k [Progress None, Data ''PK'', Progress (Some 50), Data ''zz'', End,
                     OutputFinish])"
    by blast
  from t2 have c4: "\<forall>i<length ?tr. is_renderer (?tr ! i) \<longrightarrow>
      (\<exists>j<i. \<exists>v. ?tr ! j = ResolvedVersionObserved v)"
    by (rule conjunct1)
  have r4: "is_renderer (?tr ! 4)" and l4: "4 < length ?tr"
    by (simp_all add: tr)
  from c4 l4 r4 have c5: "\<exists>j<4. \<exists>v. ?tr ! j = ResolvedVersionObserved v"
    by blast
  from rv1 mg1 pre1' sch1 c1 c2' rv2 mg2 sch2 c3 r4 c5 show ?thesis
    by (intro conjI)
qed

text \<open>
  How a run ends, by what happens first after the stream is opened: a rejected
  \<open>manager.get\<close> and a failure of the output stage are thrown; as long as the output stage
  neither finishes nor fails, the run stays pending, whatever the stream itself emits.
\<close>

lemma drain_pending:
  "\<forall>x\<in>set evs. \<not> output_event x \<Longrightarrow> snd (drain out ended evs) = None"
proof (induction out ended evs rule: drain.induct)
  case (4 out ended c rest)
  then show ?case by (cases ended) (simp_all add: case_prod_beta)
next
  case (5 out ended rest)
  then show ?case by (cases ended) (simp_all add: case_prod_beta)
qed (simp_all add: case_prod_beta)

lemma drain_output_error:
  "\<forall>x\<in>set evs. \<not> output_event x \<Longrightarrow>
   snd (drain out ended (evs @ OutputError e # rest)) = Some (Inl e)"
proof (induction out ended evs rule: drain.induct)
  case (4 out ended c rest)
  then show ?case by (cases ended) (simp_all add: case_prod_beta)
next
  case (5 out ended rest)
  then show ?case by (cases ended) (simp_all add: case_prod_beta)
qed (simp_all add: case_prod_beta)

lemma downloadOSImage_failures:
  assumes rv: "requested_version env deviceType tok = (tr1, Inr version)"
  shows "manager_get env deviceType version = Inl e \<Longrightarrow>
           snd (downloadOSImage env deviceType outputPath tok) = Threw e"
    and "manager_get env deviceType version = Inr stream \<Longrightarrow>
         schedule stream = ResolvedVersion v # evs @ OutputError e # rest \<Longrightarrow>
         \<forall>x\<in>set evs. \<not> output_event x \<Longrightarrow>
           snd (downloadOSImage env deviceType outputPath tok) = Threw e"
    and "manager_get env deviceType version = Inr stream \<Longrightarrow>
         schedule stream = ResolvedVersion v # evs \<Longrightarrow>
         \<forall>x\<in>set evs. \<not> output_event x \<Longrightarrow>
           snd (downloadOSImage env deviceType outputPath tok) = NeverSettles"
proof -
  show "manager_get env deviceType version = Inl e \<Longrightarrow>
           snd (downloadOSImage env deviceType outputPath tok) = Threw e"
    by (simp add: downloadOSImage_def rv)
next
  assume mg: "manager_get env deviceType version = Inr stream"
    and sch: "schedule stream = ResolvedVersion v # evs @ OutputError e # rest"
    and evs: "\<forall>x\<in>set evs. \<not> output_event x"
  have aw: "await_resolved (schedule stream) [] = Some (Inr (v, [], evs @ OutputError e # rest))"
    unfolding sch by simp
  show "snd (downloadOSImage env deviceType outputPath tok) = Threw e"
    by (simp add: downloadOSImage_split [OF rv mg] consume_stream_resolved [OF aw refl]
        drain_output_error [OF evs])
next
  assume mg: "manager_get env deviceType version = Inr stream"
    and sch: "schedule stream = ResolvedVersion v # evs"
    and evs: "\<forall>x\<in>set evs. \<not> output_event x"
  have aw: "await_resolved (schedule stream) [] = Some (Inr (v, [], evs))"
    unfolding sch by simp
  show "snd (downloadOSImage env deviceType outputPath tok) = NeverSettles"
    by (simp add: downloadOSImage_split [OF rv mg] consume_stream_resolved [OF aw refl]
        drain_pending [OF evs])
qed

text \<open>
  C7. A stream that announces its version, delivers a chunk and then emits \<open>error\<close>: the
  only \<open>error\<close> listener is the \<open>reject\<close> of the promise that \<open>resolved-version\<close> has
  already fulfilled, the pipe never ends the output stage, and the run neither returns nor
  throws.
\<close>

theorem downloadOSImage_midtransfer_error_swallowed:
  "downloadOSImage reset_env ''raspberrypi3'' ''out.img'' (Some ''2.88.4'') =
     ([ConsoleInfo ''Getting device operating system for raspberrypi3'',
       SetEnv ''ZLIB_FLUSH'' ''Z_NO_FLUSH'',
       ManagerGet ''raspberrypi3'' ''2.88.4.prod'',
       ResolvedVersionObserved ''2.88.4'',
       NewProgress ''Downloading balenaOS version 2.88.4'',
       NewSpinner ''Downloading balenaOS version 2.88.4 (size unknown)'',
       OpenOutput (WriteStream ''out.img''),
       PipeChunk (WriteStream ''out.img'') ''abc''],
      NeverSettles)"
  by (simp add: downloadOSImage_def requested_version_def resolveOSVersion_def endsWith_def
      reset_env_def example_env_def consume_stream_def reset_stream_def select_output_def
      Let_def)

subsection \<open>The memoized lookups\<close>

lemma keeps_refl: "keeps c c"
  by (simp add: keeps_def)

lemma keeps_trans: "keeps a b \<Longrightarrow> keeps b c \<Longrightarrow> keeps a c"
  by (simp add: keeps_def)

lemma serviceIdToName_hit:
  "serviceIdToName_cache c (int_toString i) = Some r \<Longrightarrow> serviceIdToName s i c = (r, c)"
  by (simp add: serviceIdToName_def memoize_def)

lemma serviceIdToName_stores:
  "serviceIdToName s i c = (r, c') \<Longrightarrow> serviceIdToName_cache c' (int_toString i) = Some r"
  by (auto simp: serviceIdToName_def memoize_def split: option.splits)

lemma serviceIdToName_keeps: "keeps c (snd (serviceIdToName s i c))"
  by (auto simp: serviceIdToName_def memoize_def keeps_def split: option.splits)

lemma getDeviceAndMaybeAppFromUUID_hit:
  "getDeviceAndMaybeAppFromUUID_cache c u = Some r \<Longrightarrow>
   getDeviceAndMaybeAppFromUUID s u df af c = (r, c)"
  by (simp add: getDeviceAndMaybeAppFromUUID_def memoize_def)

lemma getDeviceAndMaybeAppFromUUID_stores:
  "getDeviceAndMaybeAppFromUUID s u df af c = (r, c') \<Longrightarrow>
   getDeviceAndMaybeAppFromUUID_cache c' u = Some r"
  by (auto simp: getDeviceAndMaybeAppFromUUID_def memoize_def split: option.splits)

lemma getDeviceAndMaybeAppFromUUID_keeps:
  "keeps c (snd (getDeviceAndMaybeAppFromUUID s u df af c))"
  by (auto simp: getDeviceAndMaybeAppFromUUID_def memoize_def keeps_def split: option.splits)

lemma getDeviceAndMaybeAppFromUUID_others:
  "getDeviceAndAppFromUUID_cache (snd (getDeviceAndMaybeAppFromUUID s u df af c))
     = getDeviceAndAppFromUUID_cache c"
  by (auto simp: getDeviceAndMaybeAppFromUUID_def memoize_def split: option.splits)

lemma getDeviceAndAppFromUUID_hit:
  "getDeviceAndAppFromUUID_cache c u = Some r \<Longrightarrow>
   getDeviceAndAppFromUUID strip s u df af c = (r, c)"
  by (simp add: getDeviceAndAppFromUUID_def memoize_def)

lemma getDeviceAndAppFromUUID_stores:
  "getDeviceAndAppFromUUID strip s u df af c = (r, c') \<Longrightarrow>
   getDeviceAndAppFromUUID_cache c' u = Some r"
  by (auto simp: getDeviceAndAppFromUUID_def memoize_def split: option.splits prod.splits)

lemma getDeviceAndAppFromUUID_keeps:
  "keeps c (snd (getDeviceAndAppFromUUID strip s u df af c))"
proof (cases "getDeviceAndAppFromUUID_cache c u")
  case (Some r)
  then show ?thesis by (simp add: getDeviceAndAppFromUUID_hit keeps_refl)
next
  case None
  let ?m = "getDeviceAndMaybeAppFromUUID s u df af c"
  have k: "keeps c (snd ?m)" by (rule getDeviceAndMaybeAppFromUUID_keeps)
  have o: "getDeviceAndAppFromUUID_cache (snd ?m) = getDeviceAndAppFromUUID_cache c"
    by (rule getDeviceAndMaybeAppFromUUID_others)
  obtain r c1 where m: "?m = (r, c1)" by (cases ?m)
  have "\<exists>x. snd (getDeviceAndAppFromUUID strip s u df af c) =
          c1\<lparr>getDeviceAndAppFromUUID_cache := (getDeviceAndAppFromUUID_cache c1)(u \<mapsto> x)\<rparr>"
    using None m
    by (auto simp: getDeviceAndAppFromUUID_def memoize_def split: sum.splits option.splits)
  then obtain x where x: "snd (getDeviceAndAppFromUUID strip s u df af c) =
          c1\<lparr>getDeviceAndAppFromUUID_cache := (getDeviceAndAppFromUUID_cache c1)(u \<mapsto> x)\<rparr>"
    by blast
  show ?thesis
    unfolding x using k o None m by (auto simp: keeps_def)
qed

lemma run_call_keeps: "keeps c (run_call strip x c)"
  by (cases x)
    (simp_all add: serviceIdToName_keeps getDeviceAndAppFromUUID_keeps
      getDeviceAndMaybeAppFromUUID_keeps)

lemma run_calls_keeps: "keeps c (run_calls strip xs c)"
proof (induction xs arbitrary: c)
  case Nil
  show ?case by (simp add: keeps_refl)
next
  case (Cons x xs)
  have "keeps c (run_call strip x c)" by (rule run_call_keeps)
  moreover have "keeps (run_call strip x c) (run_calls strip xs (run_call strip x c))"
    by (rule Cons.IH)
  ultimately show ?case by (simp add: keeps_trans [of c "run_call strip x c"])
qed

text \<open>
  C9. Each memoized lookup is keyed by one identifier: \<open>serviceIdToName\<close> by the service
  id, \<open>getDeviceAndMaybeAppFromUUID\<close> and \<open>getDeviceAndAppFromUUID\<close> by the device UUID.
  After a call has returned \<open>r\<close> for an identifier, and after any further calls of the three
  lookups, a call with the same identifier returns \<open>r\<close> again and leaves the caches as they
  are, whatever SDK, field selections or template tag it is given: the entry is never
  dropped or replaced.
\<close>

theorem memoized_lookups_keyed_by_identifier:
  "(serviceIdToName s1 serviceId c = (r1, c1) \<longrightarrow>
      serviceIdToName s2 serviceId (run_calls strip calls c1) = (r1, run_calls strip calls c1)) \<and>
   (getDeviceAndMaybeAppFromUUID s1 deviceUUID df1 af1 c = (r2, c2) \<longrightarrow>
      getDeviceAndMaybeAppFromUUID s2 deviceUUID df2 af2 (run_calls strip calls c2)
        = (r2, run_calls strip calls c2)) \<and>
   (getDeviceAndAppFromUUID strip1 s1 deviceUUID df1 af1 c = (r3, c3) \<longrightarrow>
      getDeviceAndAppFromUUID strip2 s2 deviceUUID df2 af2 (run_calls strip calls c3)
        = (r3, run_calls strip calls c3))"
proof (intro conjI impI)
  assume "serviceIdToName s1 serviceId c = (r1, c1)"
  then have "serviceIdToName_cache c1 (int_toString serviceId) = Some r1"
    by (rule serviceIdToName_stores)
  with run_calls_keeps [of c1 strip calls]
  have "serviceIdToName_cache (run_calls strip calls c1) (int_toString serviceId) = Some r1"
    by (simp add: keeps_def)
  then show "serviceIdToName s2 serviceId (run_calls strip calls c1)
               = (r1, run_calls strip calls c1)"
    by (rule serviceIdToName_hit)
next
  assume "getDeviceAndMaybeAppFromUUID s1 deviceUUID df1 af1 c = (r2, c2)"
  then have "getDeviceAndMaybeAppFromUUID_cache c2 deviceUUID = Some r2"
    by (rule getDeviceAndMaybeAppFromUUID_stores)
  with run_calls_keeps [of c2 strip calls]
  have "getDeviceAndMaybeAppFromUUID_cache (run_calls strip calls c2) deviceUUID = Some r2"
    by (simp add: keeps_def)
  then show "getDeviceAndMaybeAppFromUUID s2 deviceUUID df2 af2 (run_calls strip calls c2)
        = (r2, run_calls strip calls c2)"
    by (rule getDeviceAndMaybeAppFromUUID_hit)
next
  assume "getDeviceAndAppFromUUID strip1 s1 deviceUUID df1 af1 c = (r3, c3)"
  then have "getDeviceAndAppFromUUID_cache c3 deviceUUID = Some r3"
    by (rule getDeviceAndAppFromUUID_stores)
  with run_calls_keeps [of c3 strip calls]
  have "getDeviceAndAppFromUUID_cache (run_calls strip calls c3) deviceUUID = Some r3"
    by (simp add: keeps_def)
  then show "getDeviceAndAppFromUUID strip2 s2 deviceUUID df2 af2 (run_calls strip calls c3)
        = (r3, run_calls strip calls c3)"
    by (rule getDeviceAndAppFromUUID_hit)
qed

theorem memoized_lookups_keyed_by_identifier_witness:
  "fst (serviceIdToName sdk_one 42 empty_caches) = Inr (Some ''main'') \<and>
   fst (serviceIdToName sdk_two 42 empty_caches) = Inr (Some ''sidecar'') \<and>
   fst (serviceIdToName sdk_two 42
          (run_calls (\<lambda>s. s)
             [CallServiceIdToName sdk_two 7,
              CallGetDeviceAndApp sdk_two ''abc'' None None]
             (snd (serviceIdToName sdk_one 42 empty_caches))))
     = Inr (Some ''main'') \<and>
   fst (getDeviceAndMaybeAppFromUUID sdk_one ''abc'' (Some [''uuid'']) (Some [''id''])
          (run_calls (\<lambda>s. s)
             [CallServiceIdToName sdk_two 7,
              CallGetDeviceAndApp sdk_two ''abc'' None None]
             (snd (getDeviceAndMaybeAppFromUUID sdk_one ''abc'' None None empty_caches))))
     = fst (getDeviceAndMaybeAppFromUUID sdk_one ''abc'' None None empty_caches) \<and>
   fst (getDeviceAndMaybeAppFromUUID sdk_one ''abc'' (Some [''uuid'']) (Some [''id''])
          empty_caches)
     \<noteq> fst (getDeviceAndMaybeAppFromUUID sdk_one ''abc'' None None empty_caches) \<and>
   fst (getDeviceAndAppFromUUID (\<lambda>s. s) sdk_two ''abc'' (Some [''uuid'']) (Some [''id''])
          (run_calls (\<lambda>s. s)
             [CallServiceIdToName sdk_two 7,
              CallGetDeviceAndApp sdk_two ''abc'' None None]
             (snd (getDeviceAndAppFromUUID (\<lambda>s. s) sdk_one ''abc'' None None empty_caches))))
     = fst (getDeviceAndAppFromUUID (\<lambda>s. s) sdk_one ''abc'' None None empty_caches)"
proof -
  let ?calls = "[CallServiceIdToName sdk_two 7, CallGetDeviceAndApp sdk_two ''abc'' None None]"
  let ?a = "serviceIdToName sdk_one 42 empty_caches"
  let ?b = "getDeviceAndMaybeAppFromUUID sdk_one ''abc'' None None empty_caches"
  let ?c = "getDeviceAndAppFromUUID (\<lambda>s. s) sdk_one ''abc'' None None empty_caches"
  note t = memoized_lookups_keyed_by_identifier
    [where ?s1.0 = sdk_one and serviceId = 42 and c = empty_caches and ?r1.0 = "fst ?a"
       and ?c1.0 = "snd ?a" and ?s2.0 = sdk_two and strip = "\<lambda>s. s" and calls = ?calls
       and deviceUUID = "''abc''" and ?df1.0 = None and ?af1.0 = None and ?r2.0 = "fst ?b"
       and ?c2.0 = "snd ?b" and ?df2.0 = "Some [''uuid'']" and ?af2.0 = "Some [''id'']"
       and ?strip1.0 = "\<lambda>s. s" and ?r3.0 = "fst ?c" and ?c3.0 = "snd ?c"
       and ?strip2.0 = "\<lambda>s. s"]
  note u = memoized_lookups_keyed_by_identifier
    [where ?s1.0 = sdk_one and serviceId = 42 and c = empty_caches and ?r1.0 = "fst ?a"
       and ?c1.0 = "snd ?a" and ?s2.0 = sdk_one and strip = "\<lambda>s. s" and calls = ?calls
       and deviceUUID = "''abc''" and ?df1.0 = None and ?af1.0 = None and ?r2.0 = "fst ?b"
       and ?c2.0 = "snd ?b" and ?df2.0 = "Some [''uuid'']" and ?af2.0 = "Some [''id'']"
       and ?strip1.0 = "\<lambda>s. s" and ?r3.0 = "fst ?c" and ?c3.0 = "snd ?c"
       and ?strip2.0 = "\<lambda>s. s"]
  have a1: "fst ?a = Inr (Some ''main'')"
    by (simp add: serviceIdToName_def memoize_def empty_caches_def sdk_one_def)
  have a2: "fst (serviceIdToName sdk_two 42 empty_caches) = Inr (Some ''sidecar'')"
    by (simp add: serviceIdToName_def memoize_def empty_caches_def sdk_two_def)
  from t have a3: "fst (serviceIdToName sdk_two 42 (run_calls (\<lambda>s. s) ?calls (snd ?a))) = fst ?a"
    by simp
  from u have b1: "fst (getDeviceAndMaybeAppFromUUID sdk_one ''abc'' (Some [''uuid''])
                      (Some [''id'']) (run_calls (\<lambda>s. s) ?calls (snd ?b))) = fst ?b"
    by simp
  have b2: "fst (getDeviceAndMaybeAppFromUUID sdk_one ''abc'' (Some [''uuid'']) (Some [''id''])
                   empty_caches) \<noteq> fst ?b"
    by (simp add: getDeviceAndMaybeAppFromUUID_def memoize_def empty_caches_def sdk_one_def
        pick_fields_def)
  from t have c1: "fst (getDeviceAndAppFromUUID (\<lambda>s. s) sdk_two ''abc'' (Some [''uuid''])
                      (Some [''id'']) (run_calls (\<lambda>s. s) ?calls (snd ?c))) = fst ?c"
    by simp
  from a1 a2 a3 b1 b2 c1 show ?thesis
    by simp
qed

subsection \<open>The release commands\<close>

text \<open>
  C10 (as amended). Once the arguments are parsed, \<open>release import\<close> on a bundle file
  that can be opened always ends by printing its success message and returns, also when
  the fleet flag is missing, the fleet lookup fails or applying the bundle fails: the error
  is logged and nothing is thrown. \<open>release export\<close> does the same when the release lookup
  succeeds, also when creating or writing the bundle fails. When the release lookup fails,
  \<open>release export\<close> throws that error and prints nothing.
\<close>

theorem release_commands_final_message:
  "(release_get env commitOrId = Inr releaseId \<longrightarrow>
      snd (ReleaseExportCmd_run env commitOrId output) = Returned () \<and>
      last (fst (ReleaseExportCmd_run env commitOrId output)) = export_done commitOrId output \<and>
      (\<forall>e. bundle_create env releaseId = Inl e \<longrightarrow>
           export_failed commitOrId e \<in> set (fst (ReleaseExportCmd_run env commitOrId output))) \<and>
      (\<forall>b e. bundle_create env releaseId = Inr b \<longrightarrow> fs_writeFile env output b = Inl e \<longrightarrow>
           export_failed commitOrId e \<in> set (fst (ReleaseExportCmd_run env commitOrId output)))) \<and>
   (release_get env commitOrId = Inl err \<longrightarrow>
      ReleaseExportCmd_run env commitOrId output = ([ReleaseGet commitOrId], Threw err)) \<and>
   (fs_open env bundle = None \<longrightarrow>
      snd (ReleaseImportCmd_run env bundle fl) = Returned () \<and>
      last (fst (ReleaseImportCmd_run env bundle fl)) = import_done bundle fl \<and>
      (fl = FleetUndefined \<longrightarrow>
         import_failed fl (OtherError ''Fleet must be a number or slug.'')
           \<in> set (fst (ReleaseImportCmd_run env bundle fl))) \<and>
      (\<forall>e. fl \<noteq> FleetUndefined \<longrightarrow> application_get env fl = Inl e \<longrightarrow>
           import_failed fl e \<in> set (fst (ReleaseImportCmd_run env bundle fl))) \<and>
      (\<forall>a e. fl \<noteq> FleetUndefined \<longrightarrow> application_get env fl = Inr a \<longrightarrow>
           bundle_apply env a bundle = Inl e \<longrightarrow>
           import_failed fl e \<in> set (fst (ReleaseImportCmd_run env bundle fl))))"
proof (intro conjI impI allI)
  assume "release_get env commitOrId = Inr releaseId"
  then show "snd (ReleaseExportCmd_run env commitOrId output) = Returned ()"
    by (simp add: ReleaseExportCmd_run_def Let_def)
next
  assume "release_get env commitOrId = Inr releaseId"
  then show "last (fst (ReleaseExportCmd_run env commitOrId output)) = export_done commitOrId output"
    by (simp add: ReleaseExportCmd_run_def Let_def)
next
  fix e
  assume "release_get env commitOrId = Inr releaseId" "bundle_create env releaseId = Inl e"
  then show "export_failed commitOrId e \<in> set (fst (ReleaseExportCmd_run env commitOrId output))"
    by (simp add: ReleaseExportCmd_run_def Let_def)
next
  fix b e
  assume "release_get env commitOrId = Inr releaseId" "bundle_create env releaseId = Inr b"
    "fs_writeFile env output b = Inl e"
  then show "export_failed commitOrId e \<in> set (fst (ReleaseExportCmd_run env commitOrId output))"
    by (simp add: ReleaseExportCmd_run_def Let_def)
next
  assume "release_get env commitOrId = Inl err"
  then show "ReleaseExportCmd_run env commitOrId output = ([ReleaseGet commitOrId], Threw err)"
    by (simp add: ReleaseExportCmd_run_def)
next
  assume "fs_open env bundle = None"
  then show "snd (ReleaseImportCmd_run env bundle fl) = Returned ()"
    by (simp add: ReleaseImportCmd_run_def Let_def)
next
  assume "fs_open env bundle = None"
  then show "last (fst (ReleaseImportCmd_run env bundle fl)) = import_done bundle fl"
    by (simp add: ReleaseImportCmd_run_def Let_def)
next
  assume "fs_open env bundle = None" "fl = FleetUndefined"
  then show "import_failed fl (OtherError ''Fleet must be a number or slug.'')
        \<in> set (fst (ReleaseImportCmd_run env bundle fl))"
    by (simp add: ReleaseImportCmd_run_def Let_def)
next
  fix e
  assume "fs_open env bundle = None" "fl \<noteq> FleetUndefined" "application_get env fl = Inl e"
  then show "import_failed fl e \<in> set (fst (ReleaseImportCmd_run env bundle fl))"
    by (simp add: ReleaseImportCmd_run_def Let_def)
next
  fix a e
  assume "fs_open env bundle = None" "fl \<noteq> FleetUndefined" "application_get env fl = Inr a"
    "bundle_apply env a bundle = Inl e"
  then show "import_failed fl e \<in> set (fst (ReleaseImportCmd_run env bundle fl))"
    by (simp add: ReleaseImportCmd_run_def Let_def)
qed

theorem release_commands_final_message_witness:
  "release_get bundle_fails_env ''1234567'' = Inr 7 \<and>
   bundle_create bundle_fails_env 7 = Inl (OtherError ''Release is not successful'') \<and>
   ReleaseExportCmd_run bundle_fails_env ''1234567'' ''release.tar'' =
     ([ReleaseGet ''1234567'', BundleCreate 7,
       ConsoleLog ''Release 1234567 could not be exported. Release is not successful'',
       ConsoleLog ''Release 1234567 has been exported to release.tar.''],
      Returned ()) \<and>
   last (fst (ReleaseExportCmd_run bundle_fails_env ''1234567'' ''release.tar''))
     = export_done ''1234567'' ''release.tar'' \<and>
   export_failed ''1234567'' (OtherError ''Release is not successful'')
     \<in> set (fst (ReleaseExportCmd_run bundle_fails_env ''1234567'' ''release.tar'')) \<and>
   fs_open bundle_fails_env ''release.tar'' = None \<and>
   FleetString ''myFleet'' \<noteq> FleetUndefined \<and>
   application_get bundle_fails_env (FleetString ''myFleet'') = Inr 3 \<and>
   bundle_apply bundle_fails_env 3 ''release.tar'' = Inl (OtherError ''Invalid bundle'') \<and>
   snd (ReleaseImportCmd_run bundle_fails_env ''release.tar'' (FleetString ''myFleet''))
     = Returned () \<and>
   last (fst (ReleaseImportCmd_run bundle_fails_env ''release.tar'' (FleetString ''myFleet'')))
     = import_done ''release.tar'' (FleetString ''myFleet'') \<and>
   import_failed (FleetString ''myFleet'') (OtherError ''Invalid bundle'')
     \<in> set (fst (ReleaseImportCmd_run bundle_fails_env ''release.tar'' (FleetString ''myFleet'')))"
proof -
  have a: "release_get bundle_fails_env ''1234567'' = Inr 7"
    and b: "bundle_create bundle_fails_env 7 = Inl (OtherError ''Release is not successful'')"
    and c: "FleetString ''myFleet'' \<noteq> FleetUndefined"
    and d: "application_get bundle_fails_env (FleetString ''myFleet'') = Inr 3"
    and e: "bundle_apply bundle_fails_env 3 ''release.tar'' = Inl (OtherError ''Invalid bundle'')"
    and o: "fs_open bundle_fails_env ''release.tar'' = None"
    by (simp_all add: bundle_fails_env_def)
  have f: "ReleaseExportCmd_run bundle_fails_env ''1234567'' ''release.tar'' =
     ([ReleaseGet ''1234567'', BundleCreate 7,
       ConsoleLog ''Release 1234567 could not be exported. Release is not successful'',
       ConsoleLog ''Release 1234567 has been exported to release.tar.''],
      Returned ())"
    by (simp add: ReleaseExportCmd_run_def bundle_fails_env_def export_failed_def
        export_done_def Let_def)
  note t = release_commands_final_message
    [of bundle_fails_env "''1234567''" 7 "''release.tar''" "OtherError ''x''" "''release.tar''"
        "FleetString ''myFleet''"]
  from t a have g: "last (fst (ReleaseExportCmd_run bundle_fails_env ''1234567'' ''release.tar''))
     = export_done ''1234567'' ''release.tar''"
    by blast
  from t a b have h: "export_failed ''1234567'' (OtherError ''Release is not successful'')
     \<in> set (fst (ReleaseExportCmd_run bundle_fails_env ''1234567'' ''release.tar''))"
    by blast
  from t o have i: "snd (ReleaseImportCmd_run bundle_fails_env ''release.tar'' (FleetString ''myFleet''))
     = Returned ()"
    and j: "last (fst (ReleaseImportCmd_run bundle_fails_env ''release.tar'' (FleetString ''myFleet'')))
     = import_done ''release.tar'' (FleetString ''myFleet'')"
    by blast+
  from t o c d e have k: "import_failed (FleetString ''myFleet'') (OtherError ''Invalid bundle'')
     \<in> set (fst (ReleaseImportCmd_run bundle_fails_env ''release.tar'' (FleetString ''myFleet'')))"
    by blast
  from a b f g h o c d e i j k show ?thesis
    by (intro conjI)
qed

text \<open>
  Two runs that do not print the success message: a \<open>release export\<close> whose release is not
  found, and a \<open>release import\<close> whose bundle file does not exist.
\<close>

theorem release_export_lookup_failure_counterexample:
  "ReleaseExportCmd_run release_missing_env ''1234567'' ''release.tar'' =
     ([ReleaseGet ''1234567''], Threw (OtherError ''Release not found'')) \<and>
   export_done ''1234567'' ''release.tar''
     \<notin> set (fst (ReleaseExportCmd_run release_missing_env ''1234567'' ''release.tar'')) \<and>
   ReleaseImportCmd_run bundle_missing_env ''release.tar'' (FleetString ''myFleet'') =
     ([CreateReadStream ''release.tar'', ApplicationGet (FleetString ''myFleet''),
       UncaughtException (OtherError ''ENOENT: no such file or directory'')],
      Uncaught (OtherError ''ENOENT: no such file or directory'')) \<and>
   import_done ''release.tar'' (FleetString ''myFleet'')
     \<notin> set (fst (ReleaseImportCmd_run bundle_missing_env ''release.tar''
                     (FleetString ''myFleet'')))"
  by (simp add: ReleaseExportCmd_run_def ReleaseImportCmd_run_def release_missing_env_def
      bundle_missing_env_def bundle_fails_env_def export_done_def import_done_def)

end
